theory Spec2Isabelle
  imports Complex_Main "HOL-Library.Sublist"
begin

section \<open>Strings\<close>

text \<open>
  A source string is modelled as a \<^typ>\<open>string\<close>: one \<^typ>\<open>char\<close> for each code unit, which
  covers the code units below 256. The two string methods the sources call are
  \<^verbatim>\<open>String.prototype.includes\<close> (a search for a contiguous occurrence) and
  \<^verbatim>\<open>String.prototype.trim\<close>.
\<close>

fun startsWith :: "string \<Rightarrow> string \<Rightarrow> bool" where
  "startsWith hay [] = True"
| "startsWith [] (n # ns) = False"
| "startsWith (h # hs) (n # ns) = (h = n \<and> startsWith hs ns)"

fun includes_str :: "string \<Rightarrow> string \<Rightarrow> bool" where
  "includes_str [] needle = (needle = [])"
| "includes_str (h # hs) needle = (startsWith (h # hs) needle \<or> includes_str hs needle)"

text \<open>
  The white space and line terminator code units below 256 that \<^verbatim>\<open>trim\<close> strips: TAB, LF,
  VT, FF, CR, SPACE and NBSP.
\<close>

definition isWhiteSpace :: "char \<Rightarrow> bool" where
  "isWhiteSpace c = (of_char c \<in> {9, 10, 11, 12, 13, 32, 160 :: nat})"

definition trim :: "string \<Rightarrow> string" where
  "trim s = rev (dropWhile isWhiteSpace (rev (dropWhile isWhiteSpace s)))"

section \<open>The shader source formatter (utils/webgl.ts)\<close>

definition DEFAULT_VERTEX_SHADER :: string where
  "DEFAULT_VERTEX_SHADER =
     ''#version 300 es\<newline>'' @
     ''in vec4 a_position;\<newline>'' @
     ''void main() {\<newline>'' @
     ''  gl_Position = a_position;\<newline>'' @
     ''}\<newline>''"

text \<open>
  The template literal of \<^verbatim>\<open>formatForPreview\<close>, cut at its only placeholder
  \<^verbatim>\<open>${userCode}\<close>: the text before it and the text after it.
\<close>

definition preview_header :: string where
  "preview_header =
     ''#version 300 es\<newline>'' @
     ''precision highp float;\<newline>'' @
     ''\<newline>'' @
     ''uniform vec2 u_resolution;\<newline>'' @
     ''uniform float u_time;\<newline>'' @
     ''uniform vec2 u_mouse;\<newline>'' @
     ''\<newline>'' @
     ''out vec4 fragColor;\<newline>'' @
     ''\<newline>''"

definition preview_footer :: string where
  "preview_footer =
     ''\<newline>'' @
     ''\<newline>'' @
     ''// Fallback main if user just wrote functions but no main\<newline>'' @
     ''// This is a naive heuristic\<newline>'' @
     ''void main() {\<newline>'' @
     ''    vec2 uv = gl_FragCoord.xy / u_resolution.xy;\<newline>'' @
     ''    // Try to call user mainImage if it exists (Shadertoy style)\<newline>'' @
     ''    // else default main\<newline>'' @
     ''    // This part is tricky without parsing. \<newline>'' @
     ''    // We expect the user to write a 'void main()' for standard GLSL output.\<newline>'' @
     ''    // If they didn't, we can't really guess.\<newline>'' @
     ''    \<newline>'' @
     ''    // However, if the transpiler output standard GLSL, it usually includes main().\<newline>'' @
     ''}\<newline>''"

definition formatForPreview :: "string \<Rightarrow> string" where
  "formatForPreview userCode =
     (if includes_str userCode ''#version'' then userCode
      else preview_header @ userCode @ preview_footer)"

text \<open>The fragment shader of the specification's first scenario.\<close>

definition scenario_source :: string where
  "scenario_source = ''void main(){fragColor=vec4(1.0);}''"

section \<open>The rendering context and the page\<close>

text \<open>
  The WebGL2 context, the console, the window and the frame scheduler belong to the browser,
  not to the repository. They are modelled as far as the preview calls them: a table of the
  driver objects that were created and not deleted, the commands issued in order, and the
  frame callbacks that are pending. What the driver decides (whether an object can be
  created, whether a source compiles, what its log says, whether a program links, where its
  attributes and uniforms are) is a parameter.
\<close>

datatype stage = VERTEX_SHADER | FRAGMENT_SHADER

datatype gl_object = Shader nat | Program nat | Buffer nat | VertexArray nat

datatype draw_mode = TRIANGLES

record driver =
  context_available :: bool
  create_ok :: "nat \<Rightarrow> bool"
  compile_status :: "stage \<Rightarrow> string \<Rightarrow> bool"
  shader_info_log :: "stage \<Rightarrow> string \<Rightarrow> string option"
  link_status :: "(stage \<times> string) list \<Rightarrow> bool"
  program_info_log :: "(stage \<times> string) list \<Rightarrow> string option"
  attrib_location :: "(stage \<times> string) list \<Rightarrow> string \<Rightarrow> int"
  uniform_location :: "(stage \<times> string) list \<Rightarrow> string \<Rightarrow> nat option"

record shader_obj =
  sh_stage :: stage
  sh_source :: string
  sh_compiled :: bool
  sh_log :: "string option"

record program_obj =
  attached :: "(stage \<times> string) list"
  linked :: bool
  pr_log :: "string option"

text \<open>The commands of the context that change its state, with their arguments.\<close>

datatype gl_call =
    Viewport nat nat nat nat
  | CreateShader stage "nat option"
  | ShaderSource nat string
  | CompileShader nat
  | DeleteShader nat
  | CreateProgram "nat option"
  | AttachShader nat nat
  | LinkProgram nat
  | DeleteProgram nat
  | CreateBuffer "nat option"
  | BindBuffer "nat option"
  | BufferData "real list"
  | CreateVertexArray "nat option"
  | BindVertexArray "nat option"
  | EnableVertexAttribArray int
  | VertexAttribPointer int nat bool nat nat
  | UseProgram nat
  | Uniform1f nat real
  | Uniform2f nat real real
  | DrawArrays draw_mode nat nat

text \<open>
  What the closure \<^verbatim>\<open>render\<close> captures from the effect that created it. Numbers are real
  numbers: the rounding of a double, and of the 32-bit float a uniform holds, is not
  modelled.
\<close>

record render_closure =
  cl_program :: nat
  cl_vao :: "nat option"
  cl_timeLocation :: "nat option"
  cl_resolutionLocation :: "nat option"
  cl_startTime :: real

text \<open>
  The state: the context (\<open>created\<close> counts the create calls and names the next object),
  the console, the window, the scheduler, the canvas, and the component's own
  \<^verbatim>\<open>requestRef\<close>, \<^verbatim>\<open>error\<close> and \<^verbatim>\<open>compiled\<close>.
\<close>

record world =
  created :: nat
  live :: "gl_object set"
  shader_table :: "nat \<rightharpoonup> shader_obj"
  program_table :: "nat \<rightharpoonup> program_obj"
  calls :: "gl_call list"
  console :: "string option list"
  resize_listeners :: nat
  frame_requests :: nat
  pending_frames :: "(nat \<times> render_closure) list"
  clientWidth :: nat
  clientHeight :: nat
  devicePixelRatio :: real
  canvas_attached :: bool
  canvas_width :: nat
  canvas_height :: nat
  requestRef :: nat
  error :: "string option"
  compiled :: bool

definition issue :: "gl_call \<Rightarrow> world \<Rightarrow> world" where
  "issue c w = w\<lparr>calls := calls w @ [c]\<rparr>"

definition gl_viewport :: "nat \<Rightarrow> nat \<Rightarrow> nat \<Rightarrow> nat \<Rightarrow> world \<Rightarrow> world" where
  "gl_viewport x y width height w = issue (Viewport x y width height) w"

definition gl_createShader :: "driver \<Rightarrow> stage \<Rightarrow> world \<Rightarrow> nat option \<times> world" where
  "gl_createShader d type w =
     (let n = created w; w1 = w\<lparr>created := Suc n\<rparr>
      in if create_ok d n
         then (Some n,
               issue (CreateShader type (Some n))
                 (w1\<lparr>live := insert (Shader n) (live w1),
                      shader_table := (shader_table w1)
                        (n \<mapsto> \<lparr>sh_stage = type, sh_source = [], sh_compiled = False,
                                sh_log = Some []\<rparr>)\<rparr>))
         else (None, issue (CreateShader type None) w1))"

definition gl_shaderSource :: "nat \<Rightarrow> string \<Rightarrow> world \<Rightarrow> world" where
  "gl_shaderSource shader source w =
     issue (ShaderSource shader source)
       (case shader_table w shader of
          None \<Rightarrow> w
        | Some so \<Rightarrow> w\<lparr>shader_table := (shader_table w)(shader \<mapsto> so\<lparr>sh_source := source\<rparr>)\<rparr>)"

definition gl_compileShader :: "driver \<Rightarrow> nat \<Rightarrow> world \<Rightarrow> world" where
  "gl_compileShader d shader w =
     issue (CompileShader shader)
       (case shader_table w shader of
          None \<Rightarrow> w
        | Some so \<Rightarrow>
            w\<lparr>shader_table := (shader_table w)
                (shader \<mapsto> so\<lparr>sh_compiled := compile_status d (sh_stage so) (sh_source so),
                               sh_log := shader_info_log d (sh_stage so) (sh_source so)\<rparr>)\<rparr>)"

definition gl_getShaderParameter_COMPILE_STATUS :: "nat \<Rightarrow> world \<Rightarrow> bool" where
  "gl_getShaderParameter_COMPILE_STATUS shader w =
     (case shader_table w shader of None \<Rightarrow> False | Some so \<Rightarrow> sh_compiled so)"

definition gl_getShaderInfoLog :: "nat \<Rightarrow> world \<Rightarrow> string option" where
  "gl_getShaderInfoLog shader w =
     (case shader_table w shader of None \<Rightarrow> None | Some so \<Rightarrow> sh_log so)"

definition gl_deleteShader :: "nat \<Rightarrow> world \<Rightarrow> world" where
  "gl_deleteShader shader w = issue (DeleteShader shader) (w\<lparr>live := live w - {Shader shader}\<rparr>)"

definition gl_createProgram :: "driver \<Rightarrow> world \<Rightarrow> nat option \<times> world" where
  "gl_createProgram d w =
     (let n = created w; w1 = w\<lparr>created := Suc n\<rparr>
      in if create_ok d n
         then (Some n,
               issue (CreateProgram (Some n))
                 (w1\<lparr>live := insert (Program n) (live w1),
                      program_table := (program_table w1)
                        (n \<mapsto> \<lparr>attached = [], linked = False, pr_log = Some []\<rparr>)\<rparr>))
         else (None, issue (CreateProgram None) w1))"

definition gl_attachShader :: "nat \<Rightarrow> nat \<Rightarrow> world \<Rightarrow> world" where
  "gl_attachShader program shader w =
     issue (AttachShader program shader)
       (case (program_table w program, shader_table w shader) of
          (Some po, Some so) \<Rightarrow>
            w\<lparr>program_table := (program_table w)
                (program \<mapsto> po\<lparr>attached := attached po @ [(sh_stage so, sh_source so)]\<rparr>)\<rparr>
        | _ \<Rightarrow> w)"

definition gl_linkProgram :: "driver \<Rightarrow> nat \<Rightarrow> world \<Rightarrow> world" where
  "gl_linkProgram d program w =
     issue (LinkProgram program)
       (case program_table w program of
          None \<Rightarrow> w
        | Some po \<Rightarrow>
            w\<lparr>program_table := (program_table w)
                (program \<mapsto> po\<lparr>linked := link_status d (attached po),
                                pr_log := program_info_log d (attached po)\<rparr>)\<rparr>)"

definition gl_getProgramParameter_LINK_STATUS :: "nat \<Rightarrow> world \<Rightarrow> bool" where
  "gl_getProgramParameter_LINK_STATUS program w =
     (case program_table w program of None \<Rightarrow> False | Some po \<Rightarrow> linked po)"

definition gl_getProgramInfoLog :: "nat \<Rightarrow> world \<Rightarrow> string option" where
  "gl_getProgramInfoLog program w =
     (case program_table w program of None \<Rightarrow> None | Some po \<Rightarrow> pr_log po)"

definition gl_deleteProgram :: "nat \<Rightarrow> world \<Rightarrow> world" where
  "gl_deleteProgram program w =
     issue (DeleteProgram program) (w\<lparr>live := live w - {Program program}\<rparr>)"

definition gl_getAttribLocation :: "driver \<Rightarrow> nat \<Rightarrow> string \<Rightarrow> world \<Rightarrow> int" where
  "gl_getAttribLocation d program name w =
     (case program_table w program of
        None \<Rightarrow> - 1
      | Some po \<Rightarrow> attrib_location d (attached po) name)"

definition gl_getUniformLocation :: "driver \<Rightarrow> nat \<Rightarrow> string \<Rightarrow> world \<Rightarrow> nat option" where
  "gl_getUniformLocation d program name w =
     (case program_table w program of
        None \<Rightarrow> None
      | Some po \<Rightarrow> uniform_location d (attached po) name)"

definition gl_createBuffer :: "driver \<Rightarrow> world \<Rightarrow> nat option \<times> world" where
  "gl_createBuffer d w =
     (let n = created w; w1 = w\<lparr>created := Suc n\<rparr>
      in if create_ok d n
         then (Some n, issue (CreateBuffer (Some n)) (w1\<lparr>live := insert (Buffer n) (live w1)\<rparr>))
         else (None, issue (CreateBuffer None) w1))"

definition gl_createVertexArray :: "driver \<Rightarrow> world \<Rightarrow> nat option \<times> world" where
  "gl_createVertexArray d w =
     (let n = created w; w1 = w\<lparr>created := Suc n\<rparr>
      in if create_ok d n
         then (Some n,
               issue (CreateVertexArray (Some n)) (w1\<lparr>live := insert (VertexArray n) (live w1)\<rparr>))
         else (None, issue (CreateVertexArray None) w1))"

definition console_warn :: "string option \<Rightarrow> world \<Rightarrow> world" where
  "console_warn text w = w\<lparr>console := console w @ [text]\<rparr>"

text \<open>
  The scheduler hands out the handles 1, 2, ...; a pending callback is kept with its
  handle, and cancelling removes it. \<^verbatim>\<open>requestRef\<close> starts at 0, which is no handle.
\<close>

definition requestAnimationFrame :: "render_closure \<Rightarrow> world \<Rightarrow> nat \<times> world" where
  "requestAnimationFrame callback w =
     (let h = Suc (frame_requests w)
      in (h, w\<lparr>frame_requests := h, pending_frames := pending_frames w @ [(h, callback)]\<rparr>))"

definition cancelAnimationFrame :: "nat \<Rightarrow> world \<Rightarrow> world" where
  "cancelAnimationFrame h w =
     w\<lparr>pending_frames := filter (\<lambda>entry. fst entry \<noteq> h) (pending_frames w)\<rparr>"

definition addResizeListener :: "world \<Rightarrow> world" where
  "addResizeListener w = w\<lparr>resize_listeners := Suc (resize_listeners w)\<rparr>"

definition removeResizeListener :: "world \<Rightarrow> world" where
  "removeResizeListener w = w\<lparr>resize_listeners := resize_listeners w - 1\<rparr>"

section \<open>The compilation helpers (utils/webgl.ts)\<close>

text \<open>
  Both helpers return a handle or \<^verbatim>\<open>null\<close> (\<open>None\<close>); the driver's log goes to
  \<^verbatim>\<open>console.warn\<close>.
\<close>

definition createShader :: "driver \<Rightarrow> stage \<Rightarrow> string \<Rightarrow> world \<Rightarrow> nat option \<times> world" where
  "createShader d type source w =
     (case gl_createShader d type w of
        (None, w1) \<Rightarrow> (None, w1)
      | (Some shader, w1) \<Rightarrow>
          let w2 = gl_shaderSource shader source w1;
              w3 = gl_compileShader d shader w2;
              success = gl_getShaderParameter_COMPILE_STATUS shader w3
          in if success then (Some shader, w3)
             else (None, gl_deleteShader shader (console_warn (gl_getShaderInfoLog shader w3) w3)))"

definition createProgram :: "driver \<Rightarrow> nat \<Rightarrow> nat \<Rightarrow> world \<Rightarrow> nat option \<times> world" where
  "createProgram d vertexShader fragmentShader w =
     (case gl_createProgram d w of
        (None, w1) \<Rightarrow> (None, w1)
      | (Some program, w1) \<Rightarrow>
          let w2 = gl_attachShader program vertexShader w1;
              w3 = gl_attachShader program fragmentShader w2;
              w4 = gl_linkProgram d program w3;
              success = gl_getProgramParameter_LINK_STATUS program w4
          in if success then (Some program, w4)
             else (None, gl_deleteProgram program (console_warn (gl_getProgramInfoLog program w4) w4)))"

section \<open>The preview surface (components/ShaderPreview.tsx)\<close>

text \<open>
  \<^verbatim>\<open>resize\<close>: assigning to \<^verbatim>\<open>canvas.width\<close> keeps the integer part of the product, which
  is never negative here.
\<close>

definition resize :: "world \<Rightarrow> world" where
  "resize w =
     (let w1 = w\<lparr>canvas_width := nat \<lfloor>real (clientWidth w) * devicePixelRatio w\<rfloor>\<rparr>;
          w2 = w1\<lparr>canvas_height := nat \<lfloor>real (clientHeight w1) * devicePixelRatio w1\<rfloor>\<rparr>
      in gl_viewport 0 0 (canvas_width w2) (canvas_height w2) w2)"

definition positions :: "real list" where
  "positions = [- 1, - 1, 1, - 1, - 1, 1, - 1, 1, 1, - 1, 1, 1]"

text \<open>
  The data of the vertex buffer read as the vertex array describes it (two floats for each
  vertex, no stride), and the triangles a \<open>TRIANGLES\<close> draw assembles from \<open>count\<close>
  vertices starting at \<open>first\<close>. A point is in a triangle with counter-clockwise corners
  when it is on the left of, or on, each of its edges.
\<close>

fun vertices :: "real list \<Rightarrow> (real \<times> real) list" where
  "vertices (x # y # rest) = (x, y) # vertices rest"
| "vertices rest = []"

fun triangles :: "'a list \<Rightarrow> ('a \<times> 'a \<times> 'a) list" where
  "triangles (a # b # c # rest) = (a, b, c) # triangles rest"
| "triangles rest = []"

definition edge :: "real \<times> real \<Rightarrow> real \<times> real \<Rightarrow> real \<times> real \<Rightarrow> real" where
  "edge a b p = (fst b - fst a) * (snd p - snd a) - (snd b - snd a) * (fst p - fst a)"

definition in_triangle :: "(real \<times> real) \<times> (real \<times> real) \<times> (real \<times> real) \<Rightarrow> real \<times> real \<Rightarrow> bool" where
  "in_triangle t p =
     (case t of (a, b, c) \<Rightarrow> 0 \<le> edge a b p \<and> 0 \<le> edge b c p \<and> 0 \<le> edge c a p)"

definition covered :: "real list \<Rightarrow> nat \<Rightarrow> nat \<Rightarrow> real \<times> real \<Rightarrow> bool" where
  "covered data first count p =
     list_ex (\<lambda>t. in_triangle t p) (triangles (take count (drop first (vertices data))))"

text \<open>
  \<^verbatim>\<open>render\<close>, the frame callback. Its first line, \<^verbatim>\<open>if (!gl) return\<close>, never returns: the
  closure exists only where \<^verbatim>\<open>gl\<close> is not null.
\<close>

definition render :: "render_closure \<Rightarrow> real \<Rightarrow> world \<Rightarrow> world" where
  "render cl time w =
     (let w1 = issue (UseProgram (cl_program cl)) w;
          w2 = issue (BindVertexArray (cl_vao cl)) w1;
          w3 = (case cl_timeLocation cl of
                  None \<Rightarrow> w2
                | Some timeLocation \<Rightarrow>
                    issue (Uniform1f timeLocation ((time - cl_startTime cl) * 0.001)) w2);
          w4 = (case cl_resolutionLocation cl of
                  None \<Rightarrow> w3
                | Some resolutionLocation \<Rightarrow>
                    issue (Uniform2f resolutionLocation (real (canvas_width w3)) (real (canvas_height w3))) w3);
          w5 = issue (DrawArrays TRIANGLES 0 6) w4
      in case requestAnimationFrame cl w5 of (h, w6) \<Rightarrow> w6\<lparr>requestRef := h\<rparr>)"

text \<open>
  The three functions an effect can return: none (the early returns), the one of the two
  failure branches, and the one of the running preview, which captures the program and both
  shaders.
\<close>

datatype cleanup = no_cleanup | failed_cleanup | live_cleanup nat nat nat

fun run_cleanup :: "cleanup \<Rightarrow> world \<Rightarrow> world" where
  "run_cleanup no_cleanup w = w"
| "run_cleanup failed_cleanup w =
     (let w1 = removeResizeListener w
      in cancelAnimationFrame (requestRef w1) w1)"
| "run_cleanup (live_cleanup program vs fs) w =
     (let w1 = removeResizeListener w;
          w2 = cancelAnimationFrame (requestRef w1) w1;
          w3 = gl_deleteProgram program w2;
          w4 = gl_deleteShader vs w3
      in gl_deleteShader fs w4)"

text \<open>The branch of the effect taken when a shader is \<^verbatim>\<open>null\<close>, up to \<^verbatim>\<open>setCompiled(false)\<close>.\<close>

definition compilation_failed :: "driver \<Rightarrow> string \<Rightarrow> nat option \<Rightarrow> world \<Rightarrow> world" where
  "compilation_failed d fragmentCode fs w =
     (let w1 = w\<lparr>error := Some ''Shader compilation failed. Check the logs below or code syntax.''\<rparr>;
          w2 = (case fs of
                  Some fragment \<Rightarrow> w1
                | None \<Rightarrow>
                    (case gl_createShader d FRAGMENT_SHADER w1 of
                       (None, w') \<Rightarrow> w'
                     | (Some tempFs, w') \<Rightarrow>
                         let w'' = gl_compileShader d tempFs (gl_shaderSource tempFs fragmentCode w')
                         in w''\<lparr>error := gl_getShaderInfoLog tempFs w''\<rparr>))
      in w2\<lparr>compiled := False\<rparr>)"

text \<open>
  The rest of the effect once the program is linked: geometry, uniform locations, the start
  time read from \<^verbatim>\<open>performance.now()\<close> (the argument \<open>now\<close>), and the first frame request.
\<close>

definition start_rendering :: "driver \<Rightarrow> real \<Rightarrow> nat \<Rightarrow> nat \<Rightarrow> nat \<Rightarrow> world \<Rightarrow> cleanup \<times> world" where
  "start_rendering d now program vs fs w =
     (let w1 = w\<lparr>error := None\<rparr>;
          w2 = w1\<lparr>compiled := True\<rparr>;
          positionAttributeLocation = gl_getAttribLocation d program ''a_position'' w2
      in case gl_createBuffer d w2 of (positionBuffer, w3) \<Rightarrow>
         let w4 = issue (BindBuffer positionBuffer) w3;
             w5 = issue (BufferData positions) w4
         in case gl_createVertexArray d w5 of (vao, w6) \<Rightarrow>
            let w7 = issue (BindVertexArray vao) w6;
                w8 = issue (EnableVertexAttribArray positionAttributeLocation) w7;
                w9 = issue (VertexAttribPointer positionAttributeLocation 2 False 0 0) w8;
                timeLocation = gl_getUniformLocation d program ''u_time'' w9;
                resolutionLocation = gl_getUniformLocation d program ''u_resolution'' w9;
                mouseLocation = gl_getUniformLocation d program ''u_mouse'' w9;
                startTime = now;
                cl = \<lparr>cl_program = program, cl_vao = vao, cl_timeLocation = timeLocation,
                      cl_resolutionLocation = resolutionLocation, cl_startTime = startTime\<rparr>
            in case requestAnimationFrame cl w9 of (h, w10) \<Rightarrow>
               (live_cleanup program vs fs, w10\<lparr>requestRef := h\<rparr>))"

text \<open>
  The effect of \<^verbatim>\<open>ShaderPreview\<close>, run with the props \<^verbatim>\<open>fragmentCode\<close> and
  \<^verbatim>\<open>isActive\<close>; it returns its cleanup function and the new state.
\<close>

definition effect :: "driver \<Rightarrow> string \<Rightarrow> bool \<Rightarrow> real \<Rightarrow> world \<Rightarrow> cleanup \<times> world" where
  "effect d fragmentCode isActive now w =
     (if \<not> isActive then (no_cleanup, w)
      else if \<not> canvas_attached w then (no_cleanup, w)
      else if \<not> context_available d then (no_cleanup, w\<lparr>error := Some ''WebGL2 not supported''\<rparr>)
      else
        let w1 = addResizeListener (resize w)
        in case createShader d VERTEX_SHADER DEFAULT_VERTEX_SHADER w1 of (vs, w2) \<Rightarrow>
           case createShader d FRAGMENT_SHADER fragmentCode w2 of (fs, w3) \<Rightarrow>
             (case (vs, fs) of
                (Some vertex, Some fragment) \<Rightarrow>
                  (case createProgram d vertex fragment w3 of
                     (None, w4) \<Rightarrow>
                       (failed_cleanup,
                        w4\<lparr>error := Some ''Program linking failed.'', compiled := False\<rparr>)
                   | (Some program, w4) \<Rightarrow> start_rendering d now program vertex fragment w4)
              | _ \<Rightarrow> (failed_cleanup, compilation_failed d fragmentCode fs w3)))"

text \<open>
  The browser's side of the loop: at a display refresh the pending callbacks are taken off
  the list and called with the frame's time.
\<close>

definition animation_frame :: "real \<Rightarrow> world \<Rightarrow> world" where
  "animation_frame time w =
     fold (\<lambda>entry w'. render (snd entry) time w') (pending_frames w) (w\<lparr>pending_frames := []\<rparr>)"

text \<open>
  The life of the mounted component: the effect runs at mount and whenever
  \<^verbatim>\<open>fragmentCode\<close> or \<^verbatim>\<open>isActive\<close> differs from the last render, after the cleanup of the
  previous run; at unmount the cleanup runs, once.
\<close>

record mounted =
  props :: "string \<times> bool"
  cleanup_fn :: cleanup
  page_state :: world

definition mount :: "driver \<Rightarrow> real \<Rightarrow> string \<times> bool \<Rightarrow> world \<Rightarrow> mounted" where
  "mount d now p w =
     (case effect d (fst p) (snd p) now w of
        (c, w') \<Rightarrow> \<lparr>props = p, cleanup_fn = c, page_state = w'\<rparr>)"

definition rerender :: "driver \<Rightarrow> real \<Rightarrow> string \<times> bool \<Rightarrow> mounted \<Rightarrow> mounted" where
  "rerender d now p m =
     (if p = props m then m
      else mount d now p (run_cleanup (cleanup_fn m) (page_state m)))"

definition unmount :: "mounted \<Rightarrow> mounted" where
  "unmount m = m\<lparr>cleanup_fn := no_cleanup, page_state := run_cleanup (cleanup_fn m) (page_state m)\<rparr>"

text \<open>
  Whether a cleanup function is the one of a running preview, the browser's frame seen from
  the mounted component, and the invariant of the component's frame requests: a running
  preview has exactly one pending callback, the one whose handle \<^verbatim>\<open>requestRef\<close> holds, and
  a preview that is not running has none.
\<close>

fun is_live :: "cleanup \<Rightarrow> bool" where
  "is_live (live_cleanup program vs fs) = True"
| "is_live c = False"

definition frame :: "real \<Rightarrow> mounted \<Rightarrow> mounted" where
  "frame time m = m\<lparr>page_state := animation_frame time (page_state m)\<rparr>"

definition frames_ok :: "mounted \<Rightarrow> bool" where
  "frames_ok m =
     (if is_live (cleanup_fn m)
      then map fst (pending_frames (page_state m)) = [requestRef (page_state m)]
      else pending_frames (page_state m) = [])"

text \<open>What the component shows, read off its state as the specification names it.\<close>

datatype PreviewState = Idle | Live | Failed string

definition preview_state :: "world \<Rightarrow> PreviewState" where
  "preview_state w =
     (if compiled w then Live
      else case error w of
             None \<Rightarrow> Idle
           | Some text \<Rightarrow> if text = [] then Idle else Failed text)"

subsection \<open>Drivers and a page for the examples\<close>

definition world0 :: world where
  "world0 =
     \<lparr>created = 0, live = {}, shader_table = Map.empty, program_table = Map.empty, calls = [],
      console = [], resize_listeners = 0, frame_requests = 0, pending_frames = [],
      clientWidth = 300, clientHeight = 150, devicePixelRatio = 2, canvas_attached = True,
      canvas_width = 300, canvas_height = 150, requestRef = 0, error = None, compiled = False\<rparr>"

text \<open>A driver that accepts every shader; the program uses the time and the resolution.\<close>

definition good_driver :: driver where
  "good_driver =
     \<lparr>context_available = True,
      create_ok = (\<lambda>n. True),
      compile_status = (\<lambda>st src. True),
      shader_info_log = (\<lambda>st src. Some []),
      link_status = (\<lambda>att. True),
      program_info_log = (\<lambda>att. Some []),
      attrib_location = (\<lambda>att name. if name = ''a_position'' then 0 else - 1),
      uniform_location = (\<lambda>att name.
        if name = ''u_time'' then Some 0 else if name = ''u_resolution'' then Some 1 else None)\<rparr>"

text \<open>The same driver for a program that reads no uniform: none has a location.\<close>

definition plain_driver :: driver where
  "plain_driver = good_driver\<lparr>uniform_location := (\<lambda>att name. None)\<rparr>"

text \<open>A driver that rejects every fragment shader, with a message.\<close>

definition rejecting_driver :: driver where
  "rejecting_driver =
     good_driver\<lparr>compile_status := (\<lambda>st src. st = VERTEX_SHADER),
       shader_info_log := (\<lambda>st src.
         if st = VERTEX_SHADER then Some [] else Some ''ERROR: 0:1: syntax error'')\<rparr>"

text \<open>A driver that rejects every fragment shader and has nothing to say about it.\<close>

definition silent_driver :: driver where
  "silent_driver = rejecting_driver\<lparr>shader_info_log := (\<lambda>st src. Some [])\<rparr>"

definition broken_source :: string where
  "broken_source = ''void main( {''"

definition second_source :: string where
  "second_source = ''void main(){fragColor=vec4(0.5);}''"

text \<open>The scenario's preview, mounted on a fresh page at time 0 with the accepting driver.\<close>

definition live_preview :: mounted where
  "live_preview = mount good_driver 0 (scenario_source, True) world0"

section \<open>The translation client (services/geminiService.ts)\<close>

datatype ShaderLanguage = GLSL | HLSL | WGSL | MSL

text \<open>The string value of each member of the enum, as a template literal prints it.\<close>

fun lang_text :: "ShaderLanguage \<Rightarrow> string" where
  "lang_text GLSL = ''GLSL''"
| "lang_text HLSL = ''HLSL''"
| "lang_text WGSL = ''WGSL''"
| "lang_text MSL = ''MSL (Metal)''"

text \<open>
  The argument of \<^verbatim>\<open>ai.models.generateContent\<close>. The \<^verbatim>\<open>config\<close> object is present in the
  requests of \<^verbatim>\<open>transpileShader\<close> and \<^verbatim>\<open>optimizeShader\<close> only.
\<close>

record request =
  model :: string
  contents :: string
  responseMimeType :: "string option"

text \<open>
  What \<^verbatim>\<open>JSON.parse\<close> returns, as far as the client looks at it: \<^verbatim>\<open>null\<close>, on which
  reading a property throws, or any other value with its properties \<^verbatim>\<open>code\<close> and
  \<^verbatim>\<open>explanation\<close>. A property is \<open>None\<close> when it is absent; a property that is present is
  taken to be a string, as the declared result type says.
\<close>

datatype json = JNull | JValue "string option" "string option"

text \<open>
  The parameter \<^verbatim>\<open>code\<close> of the three service functions is called \<open>source\<close> below,
  since \<open>code\<close> names the field of their result.
\<close>

text \<open>
  What a rejected call hands to a \<^verbatim>\<open>catch\<close> block, which binds it as \<^verbatim>\<open>any\<close>: \<^verbatim>\<open>null\<close> or
  \<^verbatim>\<open>undefined\<close>, or a value with its property \<^verbatim>\<open>message\<close> (\<open>None\<close> when the value has
  none; a message that is present is taken to be a string, as that of an \<^verbatim>\<open>Error\<close> is).
\<close>

datatype rejection = Nullish | WithMessage "string option"

text \<open>
  The remote completion service and the host's JSON parser are not part of the repository:
  they are parameters. A call of the service either rejects (\<open>Inl\<close> of the value thrown) or
  returns (\<open>Inr\<close>); the \<^verbatim>\<open>text\<close> of a response is \<open>None\<close> when it is undefined. The
  parser throws a \<^verbatim>\<open>SyntaxError\<close> (\<open>Inl\<close> of its message) or returns. The last field is the
  message of the \<^verbatim>\<open>TypeError\<close> the engine throws when a property of \<^verbatim>\<open>null\<close> or
  \<^verbatim>\<open>undefined\<close> is read.
\<close>

record service =
  generateContent :: "request \<Rightarrow> rejection + string option"
  JSON_parse :: "string \<Rightarrow> string + json"
  null_property_message :: string

text \<open>
  \<^verbatim>\<open>${error.message}\<close> in the template literal of a \<^verbatim>\<open>catch\<close> block: reading the property
  of \<^verbatim>\<open>null\<close> or \<^verbatim>\<open>undefined\<close> throws (\<open>Inl\<close> of the \<^verbatim>\<open>TypeError\<close>'s message); a
  message that is missing prints as \<^verbatim>\<open>undefined\<close>.
\<close>

fun error_message :: "service \<Rightarrow> rejection \<Rightarrow> string + string" where
  "error_message ai Nullish = Inl (null_property_message ai)"
| "error_message ai (WithMessage None) = Inr ''undefined''"
| "error_message ai (WithMessage (Some message)) = Inr message"

text \<open>The operator \<^verbatim>\<open>||\<close> on an optional string: the empty string is falsy.\<close>

fun or_else :: "string option \<Rightarrow> string \<Rightarrow> string" where
  "or_else None d = d"
| "or_else (Some s) d = (if s = [] then d else s)"

record shader_result =
  code :: string
  explanation :: string

definition transpile_prompt :: "string \<Rightarrow> ShaderLanguage \<Rightarrow> ShaderLanguage \<Rightarrow> string" where
  \<open>transpile_prompt source sourceLang targetLang =
     ''\<newline>'' @
     ''    Act as an expert graphics programming compiler.\<newline>'' @
     ''    Task: Transpile the following '' @
     lang_text sourceLang @
     '' shader code to '' @
     lang_text targetLang @
     ''.\<newline>'' @
     ''    \<newline>'' @
     ''    Requirements:\<newline>'' @
     ''    1. Maintain strict functional equivalence.\<newline>'' @
     ''    2. Handle uniform, attribute, and varying syntax differences correctly.\<newline>'' @
     ''    3. If converting to GLSL for WebGL, ensure it is compatible with WebGL 2.0 (ES 3.0).\<newline>'' @
     ''    4. Provide the raw code for the '' @
     lang_text targetLang @
     '' version.\<newline>'' @
     ''    5. Provide a brief explanation of the changes made and any potential caveats.\<newline>'' @
     ''\<newline>'' @
     ''    Input Code:\<newline>'' @
     ''    ```\<newline>'' @
     ''    '' @
     source @
     ''\<newline>'' @
     ''    ```\<newline>'' @
     ''\<newline>'' @
     ''    Output Format:\<newline>'' @
     ''    Return a JSON object with the following structure:\<newline>'' @
     ''    {\<newline>'' @
     ''      "code": "The full transpiled code string",\<newline>'' @
     ''      "explanation": "The explanation string"\<newline>'' @
     ''    }\<newline>'' @
     ''  ''\<close>



text \<open>The object each function passes to \<^verbatim>\<open>generateContent\<close>.\<close>

definition transpile_request :: "string \<Rightarrow> ShaderLanguage \<Rightarrow> ShaderLanguage \<Rightarrow> request" where
  "transpile_request source sourceLang targetLang =
     \<lparr>model = ''gemini-2.5-flash'', contents = transpile_prompt source sourceLang targetLang,
      responseMimeType = Some ''application/json''\<rparr>"



text \<open>
  An asynchronous function returns the requests it sent to the service, in order, and how
  its promise settles: rejected with an error (\<open>Inl\<close> of the message) or resolved
  (\<open>Inr\<close>).
\<close>

text \<open>
  The \<^verbatim>\<open>try\<close> block of \<^verbatim>\<open>transpileShader\<close>: \<open>Inl\<close> is the value it throws, which is
  what the service rejected with or an error of the block's own. The \<^verbatim>\<open>console.error\<close> of
  the \<^verbatim>\<open>catch\<close> block is left out: the client has no other state. A service function
  rejects with an \<^verbatim>\<open>Error\<close> in every case (the one its \<^verbatim>\<open>catch\<close> block makes, or the
  \<^verbatim>\<open>TypeError\<close> thrown inside that block), so its result is \<open>Inl\<close> of a message.
\<close>

definition transpile_try :: "service \<Rightarrow> request \<Rightarrow> rejection + shader_result" where
  "transpile_try ai req =
     (case generateContent ai req of
        Inl thrown \<Rightarrow> Inl thrown
      | Inr responseText \<Rightarrow>
          (case responseText of
             None \<Rightarrow> Inl (WithMessage (Some ''Empty response from AI''))
           | Some txt \<Rightarrow>
               if txt = [] then Inl (WithMessage (Some ''Empty response from AI''))
               else
                 (case JSON_parse ai txt of
                    Inl syntaxError \<Rightarrow> Inl (WithMessage (Some syntaxError))
                  | Inr JNull \<Rightarrow> Inl (WithMessage (Some (null_property_message ai)))
                  | Inr (JValue c e) \<Rightarrow>
                      Inr \<lparr>code = or_else c ''// Error parsing generated code'',
                           explanation = or_else e ''No explanation provided.''\<rparr>)))"

definition transpileShader ::
  "service \<Rightarrow> string \<Rightarrow> ShaderLanguage \<Rightarrow> ShaderLanguage \<Rightarrow> request list \<times> (string + shader_result)"
where
  "transpileShader ai source sourceLang targetLang =
     (if trim source = [] then ([], Inr \<lparr>code = [], explanation = ''No code provided.''\<rparr>)
      else
        let req = transpile_request source sourceLang targetLang
        in ([req],
            case transpile_try ai req of
              Inl thrown \<Rightarrow>
                (case error_message ai thrown of
                   Inl typeError \<Rightarrow> Inl typeError
                 | Inr message \<Rightarrow> Inl (''Transpilation failed: '' @ message))
            | Inr result \<Rightarrow> Inr result))"



section \<open>The application shell (App)\<close>


datatype log_type = Info | Success | Error | Warning

record LogEntry =
  entry_id :: string
  entry_type :: log_type
  message :: string
  timestamp :: nat

datatype tab = code_tab | preview_tab

text \<open>
  The state variables of \<^verbatim>\<open>App\<close>. The variable \<^verbatim>\<open>explanation\<close> is the field
  \<open>explanation_pane\<close>, since \<open>explanation\<close> names the field of a service result.
\<close>

record app =
  inputLang :: ShaderLanguage
  outputLang :: ShaderLanguage
  inputCode :: string
  outputCode :: string
  logs :: "LogEntry list"
  isProcessing :: bool
  activeTab :: tab
  explanation_pane :: string









text \<open>A service that is unreachable, and a page, for the examples.\<close>

definition service_down :: service where
  "service_down =
     \<lparr>generateContent = (\<lambda>req. Inl (WithMessage (Some ''fetch failed''))),
      JSON_parse = (\<lambda>txt. Inl ''Unexpected end of JSON input''),
      null_property_message = ''Cannot read properties of null''\<rparr>"




section \<open>Facts about the string functions\<close>

lemma startsWith_iff_prefix: "startsWith hay needle \<longleftrightarrow> prefix needle hay"
  by (induction hay needle rule: startsWith.induct) auto

lemma includes_iff_sublist: "includes_str hay needle \<longleftrightarrow> sublist needle hay"
proof (induction hay)
  case Nil
  show ?case by simp
next
  case (Cons h hs)
  show ?case
    by (simp add: Cons.IH startsWith_iff_prefix sublist_Cons_right del: startsWith.simps)
qed

lemma includes_append_iff:
  "includes_str hay needle \<longleftrightarrow> (\<exists>before after. hay = before @ needle @ after)"
  by (simp add: includes_iff_sublist sublist_def)

lemma trim_empty_iff: "trim s = [] \<longleftrightarrow> (\<forall>c \<in> set s. isWhiteSpace c)"
proof
  assume "trim s = []"
  then have "dropWhile isWhiteSpace (rev (dropWhile isWhiteSpace s)) = []"
    by (simp add: trim_def)
  then have all: "\<forall>c \<in> set (dropWhile isWhiteSpace s). isWhiteSpace c"
    by simp
  have "dropWhile isWhiteSpace s = []"
  proof (rule ccontr)
    assume ne: "dropWhile isWhiteSpace s \<noteq> []"
    then have "\<not> isWhiteSpace (hd (dropWhile isWhiteSpace s))" by (rule hd_dropWhile)
    moreover have "hd (dropWhile isWhiteSpace s) \<in> set (dropWhile isWhiteSpace s)"
      using ne by simp
    ultimately show False using all by blast
  qed
  then show "\<forall>c \<in> set s. isWhiteSpace c" by simp
next
  assume "\<forall>c \<in> set s. isWhiteSpace c"
  then have d: "dropWhile isWhiteSpace s = []" by simp
  show "trim s = []" unfolding trim_def d by simp
qed

lemma suffix_last: "suffix xs ys \<Longrightarrow> xs \<noteq> [] \<Longrightarrow> last ys = last xs"
  by (auto simp: suffix_def)


section \<open>The formatter\<close>

lemma header_declares:
  "prefix ''#version 300 es\<newline>'' preview_header"
  "sublist ''precision highp float;\<newline>'' preview_header"
  "sublist ''uniform vec2 u_resolution;\<newline>'' preview_header"
  "sublist ''uniform float u_time;\<newline>'' preview_header"
  "sublist ''uniform vec2 u_mouse;\<newline>'' preview_header"
  "sublist ''out vec4 fragColor;\<newline>'' preview_header"
  by (simp_all add: includes_iff_sublist [symmetric] startsWith_iff_prefix [symmetric]
      preview_header_def)

text \<open>
  C4, as the code has it. For every raw text that does not contain \<open>#version\<close>,
  \<open>formatForPreview\<close> returns the header, the raw text and the footer, in this order. The
  header begins with the version pragma and holds the precision qualifier, the declarations
  of the uniforms \<open>u_resolution\<close> (vec2), \<open>u_time\<close> (float) and \<open>u_mouse\<close> (vec2) and of the
  colour output \<open>fragColor\<close>. The raw text is in the output unchanged and contiguous, yet
  not at its end: the output ends with the footer, a fallback \<open>void main()\<close> that the code
  appends after the raw text.
\<close>

theorem formatForPreview_wraps:
  assumes "\<not> sublist ''#version'' rawText"
  shows "formatForPreview rawText = preview_header @ rawText @ preview_footer \<and>
         prefix ''#version 300 es\<newline>'' (formatForPreview rawText) \<and>
         sublist ''precision highp float;\<newline>'' preview_header \<and>
         sublist ''uniform vec2 u_resolution;\<newline>'' preview_header \<and>
         sublist ''uniform float u_time;\<newline>'' preview_header \<and>
         sublist ''uniform vec2 u_mouse;\<newline>'' preview_header \<and>
         sublist ''out vec4 fragColor;\<newline>'' preview_header \<and>
         sublist rawText (formatForPreview rawText) \<and>
         suffix preview_footer (formatForPreview rawText)"
proof -
  have eq: "formatForPreview rawText = preview_header @ rawText @ preview_footer"
    using assms by (simp add: formatForPreview_def includes_iff_sublist)
  have "prefix ''#version 300 es\<newline>'' (preview_header @ rawText @ preview_footer)"
    using header_declares(1) by (rule prefix_prefix)
  moreover have "sublist rawText (preview_header @ rawText @ preview_footer)"
    by (auto simp: sublist_def)
  moreover have "suffix preview_footer (preview_header @ rawText @ preview_footer)"
    by (auto simp: suffix_def)
  ultimately show ?thesis using eq header_declares by simp
qed

theorem formatForPreview_wraps_witness:
  "\<not> sublist ''#version'' scenario_source \<and>
   formatForPreview scenario_source = preview_header @ scenario_source @ preview_footer \<and>
   sublist scenario_source (formatForPreview scenario_source)"
proof -
  have h: "\<not> sublist ''#version'' scenario_source"
    by (simp add: includes_iff_sublist [symmetric] scenario_source_def)
  show ?thesis using h formatForPreview_wraps [OF h] by simp
qed

text \<open>
  C4 as stated fails: the source of the specification's scenario has no \<open>#version\<close>, and
  it is not a suffix of what \<open>formatForPreview\<close> returns for it.
\<close>

theorem formatForPreview_suffix_counterexample:
  "\<not> includes_str scenario_source ''#version'' \<and>
   \<not> suffix scenario_source (formatForPreview scenario_source)"
proof -
  have n: "\<not> includes_str scenario_source ''#version''"
    by (simp add: scenario_source_def)
  have ne: "scenario_source \<noteq> []"
    by (simp add: scenario_source_def)
  have "suffix ''}\<newline>'' preview_footer"
    unfolding preview_footer_def by (intro suffix_appendI) (rule suffix_order.refl)
  moreover have "suffix preview_footer (formatForPreview scenario_source)"
    using n by (simp add: formatForPreview_def suffix_def)
  ultimately have "suffix ''}\<newline>'' (formatForPreview scenario_source)"
    by (rule suffix_order.trans)
  then have e: "last (formatForPreview scenario_source) = CHR 0x0A"
    by (simp add: suffix_last)
  have l: "last (formatForPreview scenario_source) \<noteq> last scenario_source"
    unfolding e by (simp add: scenario_source_def)
  show ?thesis using n l suffix_last [OF _ ne] by blast
qed

text \<open>
  C5. For every raw text that contains \<open>#version\<close>, \<open>formatForPreview\<close> returns the raw
  text itself, unchanged.
\<close>

theorem formatForPreview_identity:
  assumes "sublist ''#version'' rawText"
  shows "formatForPreview rawText = rawText"
  using assms by (simp add: formatForPreview_def includes_iff_sublist)

theorem formatForPreview_identity_witness:
  "sublist ''#version'' (''#version 300 es\<newline>'' @ scenario_source) \<and>
   formatForPreview (''#version 300 es\<newline>'' @ scenario_source) =
     ''#version 300 es\<newline>'' @ scenario_source"
proof -
  have h: "sublist ''#version'' (''#version 300 es\<newline>'' @ scenario_source)"
    by (simp add: includes_iff_sublist [symmetric])
  show ?thesis using h formatForPreview_identity [OF h] by simp
qed

section \<open>The translation client\<close>

text \<open>
  C9. For every source that is empty or holds white space only, \<open>transpileShader\<close> sends
  no request and resolves with the empty code and the explanation \<open>No code provided.\<close>,
  whatever the service would have answered.
\<close>

theorem transpileShader_blank:
  assumes "\<forall>c \<in> set source. isWhiteSpace c"
  shows "transpileShader ai source sourceLang targetLang =
           ([], Inr \<lparr>code = [], explanation = ''No code provided.''\<rparr>)"
  using assms by (simp add: transpileShader_def trim_empty_iff)

theorem transpileShader_blank_witness:
  "list_all isWhiteSpace '' \<newline>  '' \<and>
   transpileShader service_down '' \<newline>  '' HLSL GLSL =
     ([], Inr \<lparr>code = [], explanation = ''No code provided.''\<rparr>) \<and>
   transpileShader service_down [] HLSL GLSL =
     ([], Inr \<lparr>code = [], explanation = ''No code provided.''\<rparr>)"
proof -
  have h: "\<forall>c \<in> set '' \<newline>  ''. isWhiteSpace c" by (simp add: isWhiteSpace_def)
  have e: "\<forall>c \<in> set ''''. isWhiteSpace c" by simp
  show ?thesis
    using h transpileShader_blank [OF h, of service_down HLSL GLSL]
      transpileShader_blank [OF e, of service_down HLSL GLSL] by (simp add: list_all_iff)
qed





section \<open>The handlers of the application shell\<close>










section \<open>The rendering context\<close>

lemmas gl_defs =
  gl_createShader_def gl_shaderSource_def gl_compileShader_def
  gl_getShaderParameter_COMPILE_STATUS_def gl_getShaderInfoLog_def gl_deleteShader_def
  gl_createProgram_def gl_attachShader_def gl_linkProgram_def
  gl_getProgramParameter_LINK_STATUS_def gl_getProgramInfoLog_def gl_deleteProgram_def
  gl_getAttribLocation_def gl_getUniformLocation_def gl_createBuffer_def
  gl_createVertexArray_def gl_viewport_def console_warn_def issue_def

lemma createShader_ok:
  assumes "create_ok d (created w)" and "compile_status d type source"
  shows "createShader d type source w =
    (Some (created w),
     w\<lparr>created := Suc (created w),
       live := insert (Shader (created w)) (live w),
       shader_table := (shader_table w)
         (created w \<mapsto> \<lparr>sh_stage = type, sh_source = source, sh_compiled = True,
                          sh_log = shader_info_log d type source\<rparr>),
       calls := calls w @ [CreateShader type (Some (created w)), ShaderSource (created w) source,
                           CompileShader (created w)]\<rparr>)"
  using assms by (simp add: createShader_def gl_defs Let_def)

lemma createShader_rejected:
  assumes "create_ok d (created w)" and "\<not> compile_status d type source"
  shows "createShader d type source w =
    (None,
     w\<lparr>created := Suc (created w),
       live := live w - {Shader (created w)},
       shader_table := (shader_table w)
         (created w \<mapsto> \<lparr>sh_stage = type, sh_source = source, sh_compiled = False,
                          sh_log = shader_info_log d type source\<rparr>),
       calls := calls w @ [CreateShader type (Some (created w)), ShaderSource (created w) source,
                           CompileShader (created w), DeleteShader (created w)],
       console := console w @ [shader_info_log d type source]\<rparr>)"
  using assms by (simp add: createShader_def gl_defs Let_def)

lemma createShader_no_object:
  assumes "\<not> create_ok d (created w)"
  shows "createShader d type source w =
    (None, w\<lparr>created := Suc (created w), calls := calls w @ [CreateShader type None]\<rparr>)"
  using assms by (simp add: createShader_def gl_defs Let_def)

lemma createProgram_ok:
  assumes "create_ok d (created w)"
    and "shader_table w vs = Some sv" and "shader_table w fs = Some sf"
    and "link_status d [(sh_stage sv, sh_source sv), (sh_stage sf, sh_source sf)]"
  shows "createProgram d vs fs w =
    (Some (created w),
     w\<lparr>created := Suc (created w),
       live := insert (Program (created w)) (live w),
       program_table := (program_table w)
         (created w \<mapsto> \<lparr>attached = [(sh_stage sv, sh_source sv), (sh_stage sf, sh_source sf)],
                          linked = True,
                          pr_log = program_info_log d
                            [(sh_stage sv, sh_source sv), (sh_stage sf, sh_source sf)]\<rparr>),
       calls := calls w @ [CreateProgram (Some (created w)), AttachShader (created w) vs,
                           AttachShader (created w) fs, LinkProgram (created w)]\<rparr>)"
  using assms by (simp add: createProgram_def gl_defs Let_def)

text \<open>Neither helper touches the scheduler or \<^verbatim>\<open>requestRef\<close>.\<close>

lemma createShader_keeps:
  "pending_frames (snd (createShader d type source w)) = pending_frames w"
  "requestRef (snd (createShader d type source w)) = requestRef w"
  "frame_requests (snd (createShader d type source w)) = frame_requests w"
  by (simp_all add: createShader_def gl_defs Let_def split: prod.splits option.splits)

lemma createProgram_keeps:
  "pending_frames (snd (createProgram d vs fs w)) = pending_frames w"
  "requestRef (snd (createProgram d vs fs w)) = requestRef w"
  "frame_requests (snd (createProgram d vs fs w)) = frame_requests w"
  by (simp_all add: createProgram_def gl_defs Let_def split: prod.splits option.splits)

text \<open>The fields of the example page and drivers.\<close>

lemma world0_fields:
  "created world0 = 0" "live world0 = {}" "pending_frames world0 = []"
  "frame_requests world0 = 0" "requestRef world0 = 0" "canvas_attached world0"
  "console world0 = []" "calls world0 = []"
  by (simp_all add: world0_def)

lemma good_driver_fields:
  "context_available good_driver" "create_ok good_driver n"
  "compile_status good_driver st src" "link_status good_driver att"
  "uniform_location good_driver att ''u_time'' = Some 0"
  "uniform_location good_driver att ''u_resolution'' = Some 1"
  by (simp_all add: good_driver_def)

lemma plain_driver_fields:
  "context_available plain_driver" "create_ok plain_driver n"
  "compile_status plain_driver st src" "link_status plain_driver att"
  "uniform_location plain_driver att name = None"
  by (simp_all add: plain_driver_def good_driver_def)

lemma rejecting_driver_fields:
  "context_available rejecting_driver" "create_ok rejecting_driver n"
  "compile_status rejecting_driver VERTEX_SHADER src"
  "\<not> compile_status rejecting_driver FRAGMENT_SHADER src"
  "shader_info_log rejecting_driver FRAGMENT_SHADER src = Some ''ERROR: 0:1: syntax error''"
  by (simp_all add: rejecting_driver_def good_driver_def)

lemma world0_canvas:
  "nat \<lfloor>real (clientWidth world0) * devicePixelRatio world0\<rfloor> = 600"
  "nat \<lfloor>real (clientHeight world0) * devicePixelRatio world0\<rfloor> = 300"
  by (simp_all add: world0_def)

text \<open>
  C2, as the code has it. When the driver creates the shader object and reports that the
  source does not compile, \<open>createShader\<close> returns \<^verbatim>\<open>null\<close>, and that is all its caller
  receives. The object it created is no longer live (the objects live before are, except
  for one of that name), the driver's log went to the console as the driver gave it, empty
  or not, and the commands issued are create, source, compile and delete.
\<close>

theorem createShader_compile_failure:
  assumes "create_ok d (created w)" and "\<not> compile_status d type source"
  shows "fst (createShader d type source w) = None \<and>
         Shader (created w) \<notin> live (snd (createShader d type source w)) \<and>
         live (snd (createShader d type source w)) = live w - {Shader (created w)} \<and>
         console (snd (createShader d type source w)) = console w @ [shader_info_log d type source] \<and>
         calls (snd (createShader d type source w)) =
           calls w @ [CreateShader type (Some (created w)), ShaderSource (created w) source,
                      CompileShader (created w), DeleteShader (created w)]"
  by (simp add: createShader_rejected [OF assms])

theorem createShader_compile_failure_witness:
  "fst (createShader rejecting_driver FRAGMENT_SHADER broken_source world0) = None \<and>
   live (snd (createShader rejecting_driver FRAGMENT_SHADER broken_source world0)) = {} \<and>
   console (snd (createShader rejecting_driver FRAGMENT_SHADER broken_source world0)) =
     [Some ''ERROR: 0:1: syntax error'']"
  using createShader_compile_failure [of rejecting_driver world0 FRAGMENT_SHADER broken_source]
  by (simp add: rejecting_driver_fields world0_fields)

text \<open>
  C2 as stated fails. For a driver that rejects the source with an empty log, the caller
  receives \<^verbatim>\<open>null\<close> and the console the empty log: nothing stands in for it. For a driver
  that rejects with a message, the caller receives \<^verbatim>\<open>null\<close> all the same; the message is
  on the console only.
\<close>

theorem createShader_diagnostic_counterexample:
  "\<not> compile_status silent_driver FRAGMENT_SHADER broken_source \<and>
   fst (createShader silent_driver FRAGMENT_SHADER broken_source world0) = None \<and>
   console (snd (createShader silent_driver FRAGMENT_SHADER broken_source world0)) = [Some []] \<and>
   \<not> compile_status rejecting_driver FRAGMENT_SHADER broken_source \<and>
   fst (createShader rejecting_driver FRAGMENT_SHADER broken_source world0) = None \<and>
   console (snd (createShader rejecting_driver FRAGMENT_SHADER broken_source world0)) =
     [Some ''ERROR: 0:1: syntax error'']"
proof -
  have s: "create_ok silent_driver (created world0)"
    "\<not> compile_status silent_driver FRAGMENT_SHADER broken_source"
    "shader_info_log silent_driver FRAGMENT_SHADER broken_source = Some []"
    by (simp_all add: silent_driver_def rejecting_driver_def good_driver_def)
  have r: "create_ok rejecting_driver (created world0)"
    "\<not> compile_status rejecting_driver FRAGMENT_SHADER broken_source"
    by (simp_all add: rejecting_driver_fields)
  show ?thesis
    by (simp add: createShader_rejected [OF s(1) s(2)] createShader_rejected [OF r] s(2,3)
        rejecting_driver_fields world0_fields)
qed

section \<open>The effect of the preview\<close>

lemma start_rendering_ok:
  assumes "create_ok d (created w)" and "create_ok d (Suc (created w))"
    and "program_table w program = Some po"
  shows "start_rendering d now program vs fs w =
    (live_cleanup program vs fs,
     w\<lparr>created := Suc (Suc (created w)),
       live := insert (VertexArray (Suc (created w))) (insert (Buffer (created w)) (live w)),
       calls := calls w @
         [CreateBuffer (Some (created w)), BindBuffer (Some (created w)), BufferData positions,
          CreateVertexArray (Some (Suc (created w))), BindVertexArray (Some (Suc (created w))),
          EnableVertexAttribArray (attrib_location d (attached po) ''a_position''),
          VertexAttribPointer (attrib_location d (attached po) ''a_position'') 2 False 0 0],
       frame_requests := Suc (frame_requests w),
       pending_frames := pending_frames w @
         [(Suc (frame_requests w),
           \<lparr>cl_program = program, cl_vao = Some (Suc (created w)),
            cl_timeLocation = uniform_location d (attached po) ''u_time'',
            cl_resolutionLocation = uniform_location d (attached po) ''u_resolution'',
            cl_startTime = now\<rparr>)],
       requestRef := Suc (frame_requests w),
       error := None,
       compiled := True\<rparr>)"
  using assms by (simp add: start_rendering_def gl_defs requestAnimationFrame_def Let_def)

lemma start_rendering_schedules:
  "fst (start_rendering d now program vs fs w) = live_cleanup program vs fs \<and>
   (\<exists>cl. pending_frames (snd (start_rendering d now program vs fs w)) =
           pending_frames w @ [(Suc (frame_requests w), cl)] \<and>
         cl_startTime cl = now \<and> cl_program cl = program) \<and>
   requestRef (snd (start_rendering d now program vs fs w)) = Suc (frame_requests w) \<and>
   frame_requests (snd (start_rendering d now program vs fs w)) = Suc (frame_requests w)"
  by (simp add: start_rendering_def gl_defs requestAnimationFrame_def Let_def
      split: prod.splits)

lemma compilation_failed_rejected:
  assumes "create_ok d (created w)"
  shows "compilation_failed d fragmentCode None w =
    w\<lparr>created := Suc (created w),
      live := insert (Shader (created w)) (live w),
      shader_table := (shader_table w)
        (created w \<mapsto> \<lparr>sh_stage = FRAGMENT_SHADER, sh_source = fragmentCode,
           sh_compiled = compile_status d FRAGMENT_SHADER fragmentCode,
           sh_log = shader_info_log d FRAGMENT_SHADER fragmentCode\<rparr>),
      calls := calls w @ [CreateShader FRAGMENT_SHADER (Some (created w)),
                          ShaderSource (created w) fragmentCode, CompileShader (created w)],
      error := shader_info_log d FRAGMENT_SHADER fragmentCode,
      compiled := False\<rparr>"
  using assms by (simp add: compilation_failed_def gl_defs Let_def)

lemma compilation_failed_keeps:
  "pending_frames (compilation_failed d fragmentCode fs w) = pending_frames w"
  "requestRef (compilation_failed d fragmentCode fs w) = requestRef w"
  "frame_requests (compilation_failed d fragmentCode fs w) = frame_requests w"
  by (simp_all add: compilation_failed_def gl_defs Let_def split: prod.splits option.splits)

lemma resize_keeps:
  "pending_frames (addResizeListener (resize w)) = pending_frames w"
  "requestRef (addResizeListener (resize w)) = requestRef w"
  "frame_requests (addResizeListener (resize w)) = frame_requests w"
  by (simp_all add: resize_def addResizeListener_def gl_defs Let_def)

text \<open>
  The effect when the vertex shader compiles and the fragment shader does not: what is
  live afterwards is what was live before, the vertex shader, and the temporary shader the
  effect compiled to read the log. Only the shader that \<open>createShader\<close> rejected is gone.
\<close>

lemma effect_fragment_rejected:
  assumes "canvas_attached w" and "context_available d"
    and "create_ok d (created w)" and "create_ok d (Suc (created w))"
    and "create_ok d (Suc (Suc (created w)))"
    and "compile_status d VERTEX_SHADER DEFAULT_VERTEX_SHADER"
    and "\<not> compile_status d FRAGMENT_SHADER fragmentCode"
  shows "fst (effect d fragmentCode True now w) = failed_cleanup"
    and "live (snd (effect d fragmentCode True now w)) =
           insert (Shader (Suc (Suc (created w))))
             (insert (Shader (created w)) (live w) - {Shader (Suc (created w))})"
    and "error (snd (effect d fragmentCode True now w)) =
           shader_info_log d FRAGMENT_SHADER fragmentCode"
    and "compiled (snd (effect d fragmentCode True now w)) = False"
    and "pending_frames (snd (effect d fragmentCode True now w)) = pending_frames w"
    and "requestRef (snd (effect d fragmentCode True now w)) = requestRef w"
  using assms
  by (simp_all add: effect_def resize_def addResizeListener_def gl_viewport_def issue_def Let_def
      createShader_ok createShader_rejected compilation_failed_rejected)

text \<open>The effect when both shaders compile and the program links.\<close>

lemma effect_live:
  assumes "canvas_attached w" and "context_available d"
    and "create_ok d (created w)" and "create_ok d (Suc (created w))"
    and "create_ok d (Suc (Suc (created w)))" and "create_ok d (Suc (Suc (Suc (created w))))"
    and "create_ok d (Suc (Suc (Suc (Suc (created w)))))"
    and "compile_status d VERTEX_SHADER DEFAULT_VERTEX_SHADER"
    and "compile_status d FRAGMENT_SHADER fragmentCode"
    and "link_status d [(VERTEX_SHADER, DEFAULT_VERTEX_SHADER), (FRAGMENT_SHADER, fragmentCode)]"
  shows "fst (effect d fragmentCode True now w) =
           live_cleanup (Suc (Suc (created w))) (created w) (Suc (created w))"
    and "live (snd (effect d fragmentCode True now w)) =
           {Shader (created w), Shader (Suc (created w)), Program (Suc (Suc (created w))),
            Buffer (Suc (Suc (Suc (created w)))), VertexArray (Suc (Suc (Suc (Suc (created w)))))}
           \<union> live w"
    and "error (snd (effect d fragmentCode True now w)) = None"
    and "compiled (snd (effect d fragmentCode True now w)) = True"
    and "pending_frames (snd (effect d fragmentCode True now w)) =
           pending_frames w @
           [(Suc (frame_requests w),
             \<lparr>cl_program = Suc (Suc (created w)),
              cl_vao = Some (Suc (Suc (Suc (Suc (created w))))),
              cl_timeLocation = uniform_location d
                [(VERTEX_SHADER, DEFAULT_VERTEX_SHADER), (FRAGMENT_SHADER, fragmentCode)] ''u_time'',
              cl_resolutionLocation = uniform_location d
                [(VERTEX_SHADER, DEFAULT_VERTEX_SHADER), (FRAGMENT_SHADER, fragmentCode)] ''u_resolution'',
              cl_startTime = now\<rparr>)]"
    and "requestRef (snd (effect d fragmentCode True now w)) = Suc (frame_requests w)"
    and "canvas_width (snd (effect d fragmentCode True now w)) =
           nat \<lfloor>real (clientWidth w) * devicePixelRatio w\<rfloor>"
    and "canvas_height (snd (effect d fragmentCode True now w)) =
           nat \<lfloor>real (clientHeight w) * devicePixelRatio w\<rfloor>"
    and "canvas_attached (snd (effect d fragmentCode True now w))"
  using assms
  by (simp_all add: effect_def resize_def addResizeListener_def gl_viewport_def issue_def Let_def
      createShader_ok createProgram_ok start_rendering_ok insert_commute)

lemma good_live:
  assumes "canvas_attached w"
  shows "is_live (fst (effect good_driver fragmentCode True now w))"
    and "pending_frames (snd (effect good_driver fragmentCode True now w)) =
           pending_frames w @
           [(Suc (frame_requests w),
             \<lparr>cl_program = Suc (Suc (created w)),
              cl_vao = Some (Suc (Suc (Suc (Suc (created w))))),
              cl_timeLocation = Some 0, cl_resolutionLocation = Some 1, cl_startTime = now\<rparr>)]"
    and "canvas_width (snd (effect good_driver fragmentCode True now w)) =
           nat \<lfloor>real (clientWidth w) * devicePixelRatio w\<rfloor>"
    and "canvas_height (snd (effect good_driver fragmentCode True now w)) =
           nat \<lfloor>real (clientHeight w) * devicePixelRatio w\<rfloor>"
    and "canvas_attached (snd (effect good_driver fragmentCode True now w))"
  using effect_live [of w good_driver fragmentCode now, OF assms good_driver_fields(1)
      good_driver_fields(2) good_driver_fields(2) good_driver_fields(2) good_driver_fields(2)
      good_driver_fields(2) good_driver_fields(3) good_driver_fields(3) good_driver_fields(4)]
  by (simp_all add: good_driver_fields)

lemma plain_live:
  assumes "canvas_attached w"
  shows "is_live (fst (effect plain_driver fragmentCode True now w))"
    and "pending_frames (snd (effect plain_driver fragmentCode True now w)) =
           pending_frames w @
           [(Suc (frame_requests w),
             \<lparr>cl_program = Suc (Suc (created w)),
              cl_vao = Some (Suc (Suc (Suc (Suc (created w))))),
              cl_timeLocation = None, cl_resolutionLocation = None, cl_startTime = now\<rparr>)]"
  using effect_live [of w plain_driver fragmentCode now, OF assms plain_driver_fields(1)
      plain_driver_fields(2) plain_driver_fields(2) plain_driver_fields(2) plain_driver_fields(2)
      plain_driver_fields(2) plain_driver_fields(3) plain_driver_fields(3) plain_driver_fields(4)]
  by (simp_all add: plain_driver_fields)

text \<open>
  Whatever the driver does: a running preview has scheduled one more callback, whose start
  time is the time the effect read; any other outcome leaves the scheduler alone.
\<close>

lemma effect_schedules:
  "(is_live (fst (effect d fragmentCode isActive now w)) \<longrightarrow>
      (\<exists>cl. pending_frames (snd (effect d fragmentCode isActive now w)) =
              pending_frames w @ [(requestRef (snd (effect d fragmentCode isActive now w)), cl)] \<and>
            cl_startTime cl = now)) \<and>
   (\<not> is_live (fst (effect d fragmentCode isActive now w)) \<longrightarrow>
      pending_frames (snd (effect d fragmentCode isActive now w)) = pending_frames w \<and>
      requestRef (snd (effect d fragmentCode isActive now w)) = requestRef w)"
proof -
  let ?w1 = "addResizeListener (resize w)"
  obtain vs w2 where v: "createShader d VERTEX_SHADER DEFAULT_VERTEX_SHADER ?w1 = (vs, w2)"
    by (cases "createShader d VERTEX_SHADER DEFAULT_VERTEX_SHADER ?w1")
  obtain fs w3 where f: "createShader d FRAGMENT_SHADER fragmentCode w2 = (fs, w3)"
    by (cases "createShader d FRAGMENT_SHADER fragmentCode w2")
  have k2: "pending_frames w2 = pending_frames w" "requestRef w2 = requestRef w"
    "frame_requests w2 = frame_requests w"
    using createShader_keeps [of d VERTEX_SHADER DEFAULT_VERTEX_SHADER ?w1] v
    by (simp_all add: resize_keeps)
  have k3: "pending_frames w3 = pending_frames w" "requestRef w3 = requestRef w"
    "frame_requests w3 = frame_requests w"
    using createShader_keeps [of d FRAGMENT_SHADER fragmentCode w2] f k2 by simp_all
  show ?thesis
  proof (cases "isActive \<and> canvas_attached w \<and> context_available d")
    case False
    then show ?thesis by (auto simp: effect_def)
  next
    case True
    show ?thesis
    proof (cases "\<exists>vertex fragment. vs = Some vertex \<and> fs = Some fragment")
      case False
      then have "effect d fragmentCode isActive now w =
                   (failed_cleanup, compilation_failed d fragmentCode fs w3)"
        using True v f by (auto simp: effect_def Let_def split: option.splits)
      then show ?thesis by (simp add: compilation_failed_keeps k3)
    next
      case yes: True
      then obtain vertex fragment where s: "vs = Some vertex" "fs = Some fragment" by blast
      obtain pr w4 where p: "createProgram d vertex fragment w3 = (pr, w4)"
        by (cases "createProgram d vertex fragment w3")
      have k4: "pending_frames w4 = pending_frames w" "requestRef w4 = requestRef w"
        "frame_requests w4 = frame_requests w"
        using createProgram_keeps [of d vertex fragment w3] p k3 by simp_all
      show ?thesis
      proof (cases pr)
        case None
        then have "effect d fragmentCode isActive now w =
                     (failed_cleanup, w4\<lparr>error := Some ''Program linking failed.'', compiled := False\<rparr>)"
          using True v f s p by (simp add: effect_def Let_def)
        then show ?thesis by (simp add: k4)
      next
        case (Some program)
        then have e: "effect d fragmentCode isActive now w =
                     start_rendering d now program vertex fragment w4"
          using True v f s p by (simp add: effect_def Let_def)
        show ?thesis
          using start_rendering_schedules [of d now program vertex fragment w4]
          by (auto simp: e k4)
      qed
    qed
  qed
qed

section \<open>Cleanup and unmount\<close>

lemma run_cleanup_failed_live: "live (run_cleanup failed_cleanup w) = live w"
  by (simp add: cancelAnimationFrame_def removeResizeListener_def Let_def)

lemma run_cleanup_live:
  "live (run_cleanup (live_cleanup program vs fs) w) =
     live w - {Program program} - {Shader vs} - {Shader fs}"
  by (simp add: cancelAnimationFrame_def removeResizeListener_def gl_defs Let_def)

lemma run_cleanup_canvas: "canvas_attached (run_cleanup c w) = canvas_attached w"
  by (cases c) (simp_all add: cancelAnimationFrame_def removeResizeListener_def gl_defs Let_def)

lemma run_cleanup_pending:
  "c \<noteq> no_cleanup \<Longrightarrow>
   pending_frames (run_cleanup c w) = filter (\<lambda>entry. fst entry \<noteq> requestRef w) (pending_frames w)"
  by (cases c) (simp_all add: cancelAnimationFrame_def removeResizeListener_def gl_defs Let_def)

lemma mount_fields:
  "props (mount d now p w) = p"
  "cleanup_fn (mount d now p w) = fst (effect d (fst p) (snd p) now w)"
  "page_state (mount d now p w) = snd (effect d (fst p) (snd p) now w)"
  by (simp_all add: mount_def split: prod.splits)

lemma unmount_idempotent: "unmount (unmount m) = unmount m"
  by (simp add: unmount_def)

text \<open>
  C1, on the code: a failing input. The driver accepts the vertex shader and rejects the
  fragment source with a message. The effect ends in the failed state with that message
  and no program exists, yet two shader objects are live: the vertex shader (object 0) and
  the temporary fragment shader (object 2). The cleanup function this branch returns
  deletes neither.
\<close>

theorem fragment_failure_leaks:
  "\<not> compile_status rejecting_driver FRAGMENT_SHADER broken_source \<and>
   fst (effect rejecting_driver broken_source True 0 world0) = failed_cleanup \<and>
   preview_state (snd (effect rejecting_driver broken_source True 0 world0)) =
     Failed ''ERROR: 0:1: syntax error'' \<and>
   live (snd (effect rejecting_driver broken_source True 0 world0)) = {Shader 0, Shader 2} \<and>
   live (run_cleanup failed_cleanup (snd (effect rejecting_driver broken_source True 0 world0))) =
     {Shader 0, Shader 2}"
proof -
  note e = effect_fragment_rejected [of world0 rejecting_driver broken_source 0,
      OF world0_fields(6) rejecting_driver_fields(1) rejecting_driver_fields(2)
        rejecting_driver_fields(2) rejecting_driver_fields(2) rejecting_driver_fields(3)
        rejecting_driver_fields(4)]
  have l: "live (snd (effect rejecting_driver broken_source True 0 world0)) = {Shader 0, Shader 2}"
    by (simp add: e(2) world0_fields numeral_2_eq_2 insert_commute)
  have p: "preview_state (snd (effect rejecting_driver broken_source True 0 world0)) =
             Failed ''ERROR: 0:1: syntax error''"
    by (simp add: preview_state_def e(3) e(4) rejecting_driver_fields)
  show ?thesis
    by (simp only: e(1) l p run_cleanup_failed_live rejecting_driver_fields(4) simp_thms)
qed

section \<open>The frame requests of a mounted preview\<close>

lemma animation_frame_single:
  "pending_frames w = [(h, cl)] \<Longrightarrow>
   animation_frame time w = render cl time (w\<lparr>pending_frames := []\<rparr>)"
  by (simp add: animation_frame_def)

lemma render_fields:
  "calls (render cl time w) =
     calls w @ [UseProgram (cl_program cl), BindVertexArray (cl_vao cl)] @
       (case cl_timeLocation cl of
          None \<Rightarrow> []
        | Some timeLocation \<Rightarrow> [Uniform1f timeLocation ((time - cl_startTime cl) * 0.001)]) @
       (case cl_resolutionLocation cl of
          None \<Rightarrow> []
        | Some resolutionLocation \<Rightarrow>
            [Uniform2f resolutionLocation (real (canvas_width w)) (real (canvas_height w))]) @
       [DrawArrays TRIANGLES 0 6]"
  "pending_frames (render cl time w) = pending_frames w @ [(Suc (frame_requests w), cl)]"
  "requestRef (render cl time w) = Suc (frame_requests w)"
  "frame_requests (render cl time w) = Suc (frame_requests w)"
  "live (render cl time w) = live w"
  by (simp_all add: render_def issue_def requestAnimationFrame_def Let_def split: option.splits)

lemma mount_frames_ok: "pending_frames w = [] \<Longrightarrow> frames_ok (mount d now p w)"
  using effect_schedules [of d "fst p" "snd p" now w]
  by (auto simp: frames_ok_def mount_def split: prod.splits)

lemma run_cleanup_frames:
  assumes "frames_ok m"
  shows "pending_frames (run_cleanup (cleanup_fn m) (page_state m)) = []"
proof (cases "cleanup_fn m")
  case no_cleanup
  then show ?thesis using assms by (simp add: frames_ok_def)
next
  case failed_cleanup
  then show ?thesis
    using assms
    by (simp add: frames_ok_def cancelAnimationFrame_def removeResizeListener_def Let_def)
next
  case (live_cleanup program vs fs)
  then have "map fst (pending_frames (page_state m)) = [requestRef (page_state m)]"
    using assms by (simp add: frames_ok_def)
  then obtain cl where "pending_frames (page_state m) = [(requestRef (page_state m), cl)]"
    by auto
  then show ?thesis
    using live_cleanup
    by (simp add: cancelAnimationFrame_def removeResizeListener_def gl_defs Let_def)
qed

lemma rerender_frames_ok: "frames_ok m \<Longrightarrow> frames_ok (rerender d now p m)"
  by (simp add: rerender_def mount_frames_ok run_cleanup_frames)

lemma unmount_frames_ok: "frames_ok m \<Longrightarrow> frames_ok (unmount m)"
  by (simp add: unmount_def frames_ok_def run_cleanup_frames [unfolded frames_ok_def])

lemma frame_frames_ok: "frames_ok m \<Longrightarrow> frames_ok (frame time m)"
proof (cases "is_live (cleanup_fn m)")
  case False
  assume "frames_ok m"
  then show ?thesis using False by (simp add: frames_ok_def frame_def animation_frame_def)
next
  case True
  assume "frames_ok m"
  then obtain h cl where "pending_frames (page_state m) = [(h, cl)]"
    using True by (auto simp: frames_ok_def)
  then show ?thesis
    using True by (simp add: frames_ok_def frame_def animation_frame_single render_fields)
qed

lemma live_preview_facts:
  "frames_ok live_preview" "is_live (cleanup_fn live_preview)"
  "props live_preview = (scenario_source, True)"
  "canvas_attached (page_state live_preview)"
proof -
  show "frames_ok live_preview"
    unfolding live_preview_def by (rule mount_frames_ok) (rule world0_fields)
  show "is_live (cleanup_fn live_preview)"
    using good_live(1) [of world0 scenario_source 0, OF world0_fields(6)]
    by (simp add: live_preview_def mount_fields)
  show "props live_preview = (scenario_source, True)"
    by (simp add: live_preview_def mount_fields)
  show "canvas_attached (page_state live_preview)"
    using good_live(5) [of world0 scenario_source 0, OF world0_fields(6)]
    by (simp add: live_preview_def mount_fields)
qed

lemma recompiled_facts:
  "(second_source, True) \<noteq> props live_preview"
  "is_live (cleanup_fn (rerender good_driver 5000 (second_source, True) live_preview))"
  "map (cl_timeLocation \<circ> snd)
     (pending_frames (page_state (rerender good_driver 5000 (second_source, True) live_preview))) =
   [Some 0]"
proof -
  let ?w = "run_cleanup (cleanup_fn live_preview) (page_state live_preview)"
  show n: "(second_source, True) \<noteq> props live_preview"
    by (simp add: live_preview_facts(3) second_source_def scenario_source_def)
  have c: "canvas_attached ?w"
    by (simp add: run_cleanup_canvas live_preview_facts(4))
  have p: "pending_frames ?w = []"
    by (rule run_cleanup_frames) (rule live_preview_facts)
  have r: "rerender good_driver 5000 (second_source, True) live_preview =
             mount good_driver 5000 (second_source, True) ?w"
    using n by (simp add: rerender_def)
  show "is_live (cleanup_fn (rerender good_driver 5000 (second_source, True) live_preview))"
    using good_live(1) [of ?w second_source 5000, OF c]
    by (simp add: r mount_fields)
  show "map (cl_timeLocation \<circ> snd)
     (pending_frames (page_state (rerender good_driver 5000 (second_source, True) live_preview))) =
   [Some 0]"
    using good_live(2) [of ?w second_source 5000, OF c] p
    by (simp add: r mount_fields)
qed

text \<open>
  C3, on the code: a failing input. The scenario's preview is running, with five driver
  objects live: two shaders, the program, the vertex buffer and the vertex array. After
  unmount no frame callback is pending, but the vertex buffer (object 3) and the vertex
  array (object 4) are still live: the cleanup function deletes the program and the two
  shaders only.
\<close>

theorem unmount_leaks:
  "cleanup_fn (mount good_driver 0 (scenario_source, True) world0) = live_cleanup 2 0 1 \<and>
   preview_state (page_state (mount good_driver 0 (scenario_source, True) world0)) = Live \<and>
   live (page_state (mount good_driver 0 (scenario_source, True) world0)) =
     {Shader 0, Shader 1, Program 2, Buffer 3, VertexArray 4} \<and>
   pending_frames (page_state (unmount (mount good_driver 0 (scenario_source, True) world0))) = [] \<and>
   live (page_state (unmount (mount good_driver 0 (scenario_source, True) world0))) =
     {Buffer 3, VertexArray 4}"
proof -
  note e = effect_live [of world0 good_driver scenario_source 0,
      OF world0_fields(6) good_driver_fields(1) good_driver_fields(2) good_driver_fields(2)
        good_driver_fields(2) good_driver_fields(2) good_driver_fields(2) good_driver_fields(3)
        good_driver_fields(3) good_driver_fields(4)]
  obtain c w where m: "effect good_driver scenario_source True 0 world0 = (c, w)"
    by (cases "effect good_driver scenario_source True 0 world0")
  have c: "c = live_cleanup 2 0 1"
    using e(1) m by (simp add: world0_fields eval_nat_numeral)
  have l: "live w = {Shader 0, Shader 1, Program 2, Buffer 3, VertexArray 4}"
    using e(2) m by (simp add: world0_fields eval_nat_numeral)
  have s: "preview_state w = Live"
    using e(4) m by (simp add: preview_state_def)
  have f: "frames_ok (mount good_driver 0 (scenario_source, True) world0)"
    by (rule mount_frames_ok) (rule world0_fields)
  have p: "pending_frames (page_state (unmount (mount good_driver 0 (scenario_source, True) world0))) = []"
    using run_cleanup_frames [OF f] by (simp add: unmount_def)
  have u: "live (run_cleanup c w) = {Buffer 3, VertexArray 4}"
    unfolding c run_cleanup_live l by auto
  have M: "mount good_driver 0 (scenario_source, True) world0 =
             \<lparr>props = (scenario_source, True), cleanup_fn = c, page_state = w\<rparr>"
    by (simp add: mount_def m)
  have U: "page_state (unmount (mount good_driver 0 (scenario_source, True) world0)) =
             run_cleanup c w"
    by (simp add: M unmount_def)
  have 1: "cleanup_fn (mount good_driver 0 (scenario_source, True) world0) = live_cleanup 2 0 1"
    by (simp add: M c)
  have 2: "preview_state (page_state (mount good_driver 0 (scenario_source, True) world0)) = Live"
    by (simp add: M s)
  have 3: "live (page_state (mount good_driver 0 (scenario_source, True) world0)) =
             {Shader 0, Shader 1, Program 2, Buffer 3, VertexArray 4}"
    by (simp add: M l)
  have 5: "live (page_state (unmount (mount good_driver 0 (scenario_source, True) world0))) =
             {Buffer 3, VertexArray 4}"
    by (simp only: U u)
  show ?thesis using 1 2 3 p 5 by (intro conjI)
qed

section \<open>The geometry\<close>

lemma vertices_positions:
  "vertices positions = [(- 1, - 1), (1, - 1), (- 1, 1), (- 1, 1), (1, - 1), (1, 1)]"
  by (simp add: positions_def)

lemma quad_covers_square:
  "covered positions 0 6 (x, y) \<longleftrightarrow> - 1 \<le> x \<and> x \<le> 1 \<and> - 1 \<le> y \<and> y \<le> 1"
  unfolding covered_def vertices_positions
  by (simp add: in_triangle_def edge_def eval_nat_numeral) argo

section \<open>One iteration of the loop\<close>

text \<open>
  C7, as the code has it. One call of \<open>render\<close> issues, in this order: use of the closure's
  program, binding of its vertex array, the elapsed-time uniform if the program has a
  location for it, the resolution uniform (the canvas size) if the program has a location
  for it, and one draw of 6 vertices as triangles; then it requests the next frame for the
  same closure and stores the handle in \<^verbatim>\<open>requestRef\<close>. While the preview runs, a frame of
  the browser is exactly one such call: afterwards one callback is pending again, under the
  handle in \<^verbatim>\<open>requestRef\<close>, and cancelling that handle leaves none. The vertex array the
  closure binds is the one the effect set up over the buffer holding \<open>positions\<close>, two
  floats for each vertex: six vertices, whose two triangles cover exactly the square from
  -1 to 1 in both coordinates.
\<close>

theorem render_iteration:
  "calls (render cl time w) =
     calls w @ [UseProgram (cl_program cl), BindVertexArray (cl_vao cl)] @
       (case cl_timeLocation cl of
          None \<Rightarrow> []
        | Some timeLocation \<Rightarrow> [Uniform1f timeLocation ((time - cl_startTime cl) * 0.001)]) @
       (case cl_resolutionLocation cl of
          None \<Rightarrow> []
        | Some resolutionLocation \<Rightarrow>
            [Uniform2f resolutionLocation (real (canvas_width w)) (real (canvas_height w))]) @
       [DrawArrays TRIANGLES 0 6] \<and>
   pending_frames (render cl time w) = pending_frames w @ [(requestRef (render cl time w), cl)] \<and>
   (frames_ok m \<and> is_live (cleanup_fn m) \<longrightarrow>
      (\<exists>running. pending_frames (page_state m) = [(requestRef (page_state m), running)] \<and>
         page_state (frame time m) =
           render running time ((page_state m)\<lparr>pending_frames := []\<rparr>) \<and>
         pending_frames (page_state (frame time m)) =
           [(requestRef (page_state (frame time m)), running)] \<and>
         pending_frames (cancelAnimationFrame (requestRef (page_state (frame time m)))
           (page_state (frame time m))) = [] \<and>
         frames_ok (frame time m))) \<and>
   (\<exists>buffer vao location scheduled.
      calls (snd (start_rendering d now program vs fs w)) =
        calls w @ [CreateBuffer buffer, BindBuffer buffer, BufferData positions,
                   CreateVertexArray vao, BindVertexArray vao, EnableVertexAttribArray location,
                   VertexAttribPointer location 2 False 0 0] \<and>
      pending_frames (snd (start_rendering d now program vs fs w)) =
        pending_frames w @ [(requestRef (snd (start_rendering d now program vs fs w)), scheduled)] \<and>
      cl_vao scheduled = vao \<and> cl_program scheduled = program) \<and>
   vertices positions = [(- 1, - 1), (1, - 1), (- 1, 1), (- 1, 1), (1, - 1), (1, 1)] \<and>
   (covered positions 0 6 (x, y) \<longleftrightarrow> - 1 \<le> x \<and> x \<le> 1 \<and> - 1 \<le> y \<and> y \<le> 1)"
proof (intro conjI impI)
  show "calls (render cl time w) =
     calls w @ [UseProgram (cl_program cl), BindVertexArray (cl_vao cl)] @
       (case cl_timeLocation cl of
          None \<Rightarrow> []
        | Some timeLocation \<Rightarrow> [Uniform1f timeLocation ((time - cl_startTime cl) * 0.001)]) @
       (case cl_resolutionLocation cl of
          None \<Rightarrow> []
        | Some resolutionLocation \<Rightarrow>
            [Uniform2f resolutionLocation (real (canvas_width w)) (real (canvas_height w))]) @
       [DrawArrays TRIANGLES 0 6]"
    by (rule render_fields)
  show "pending_frames (render cl time w) = pending_frames w @ [(requestRef (render cl time w), cl)]"
    by (simp add: render_fields)
  show "vertices positions = [(- 1, - 1), (1, - 1), (- 1, 1), (- 1, 1), (1, - 1), (1, 1)]"
    by (rule vertices_positions)
  show "covered positions 0 6 (x, y) \<longleftrightarrow> - 1 \<le> x \<and> x \<le> 1 \<and> - 1 \<le> y \<and> y \<le> 1"
    by (rule quad_covers_square)
  show "\<exists>buffer vao location scheduled.
      calls (snd (start_rendering d now program vs fs w)) =
        calls w @ [CreateBuffer buffer, BindBuffer buffer, BufferData positions,
                   CreateVertexArray vao, BindVertexArray vao, EnableVertexAttribArray location,
                   VertexAttribPointer location 2 False 0 0] \<and>
      pending_frames (snd (start_rendering d now program vs fs w)) =
        pending_frames w @ [(requestRef (snd (start_rendering d now program vs fs w)), scheduled)] \<and>
      cl_vao scheduled = vao \<and> cl_program scheduled = program"
    by (simp add: start_rendering_def gl_defs requestAnimationFrame_def Let_def
        split: prod.splits)
next
  assume a: "frames_ok m \<and> is_live (cleanup_fn m)"
  then have "map fst (pending_frames (page_state m)) = [requestRef (page_state m)]"
    by (simp add: frames_ok_def)
  then obtain running where
    p: "pending_frames (page_state m) = [(requestRef (page_state m), running)]"
    by auto
  have f: "page_state (frame time m) =
             render running time ((page_state m)\<lparr>pending_frames := []\<rparr>)"
    by (simp add: frame_def animation_frame_single [OF p])
  have q: "pending_frames (page_state (frame time m)) =
             [(requestRef (page_state (frame time m)), running)]"
    by (simp add: f render_fields)
  have c: "pending_frames (cancelAnimationFrame (requestRef (page_state (frame time m)))
             (page_state (frame time m))) = []"
    by (simp add: cancelAnimationFrame_def q)
  have k: "frames_ok (frame time m)"
    using a by (simp add: frame_frames_ok)
  show "\<exists>running. pending_frames (page_state m) = [(requestRef (page_state m), running)] \<and>
         page_state (frame time m) =
           render running time ((page_state m)\<lparr>pending_frames := []\<rparr>) \<and>
         pending_frames (page_state (frame time m)) =
           [(requestRef (page_state (frame time m)), running)] \<and>
         pending_frames (cancelAnimationFrame (requestRef (page_state (frame time m)))
           (page_state (frame time m))) = [] \<and>
         frames_ok (frame time m)"
    using p f q c k by blast
qed

theorem render_iteration_witness:
  "frames_ok live_preview \<and> is_live (cleanup_fn live_preview) \<and>
   frames_ok (frame 16 live_preview) \<and>
   pending_frames (cancelAnimationFrame (requestRef (page_state (frame 16 live_preview)))
     (page_state (frame 16 live_preview))) = [] \<and>
   covered positions 0 6 (0, 0)"
  using live_preview_facts(1,2)
    render_iteration [of "\<lparr>cl_program = 2, cl_vao = Some 4, cl_timeLocation = Some 0,
        cl_resolutionLocation = Some 1, cl_startTime = 0\<rparr>" 16 world0 live_preview
      good_driver 0 2 0 1 0 0]
  by auto

text \<open>
  C7 as stated fails: when the linked program has no location for either uniform (here a
  driver for a program that reads none, as the scenario's source does), a frame issues the
  use of the program, the binding and the draw, and sets no uniform.
\<close>

theorem render_uniforms_counterexample:
  "is_live (fst (effect plain_driver scenario_source True 0 world0)) \<and>
   calls (animation_frame 16 (snd (effect plain_driver scenario_source True 0 world0))) =
     calls (snd (effect plain_driver scenario_source True 0 world0)) @
       [UseProgram 2, BindVertexArray (Some 4), DrawArrays TRIANGLES 0 6]"
proof -
  note e = plain_live [of world0 scenario_source 0, OF world0_fields(6)]
  have p: "pending_frames (snd (effect plain_driver scenario_source True 0 world0)) =
             [(1, \<lparr>cl_program = 2, cl_vao = Some 4, cl_timeLocation = None,
                   cl_resolutionLocation = None, cl_startTime = 0\<rparr>)]"
    by (simp add: e(2) world0_fields eval_nat_numeral)
  show ?thesis
    by (simp add: e(1) animation_frame_single [OF p] render_fields)
qed

section \<open>The frame clock\<close>

text \<open>
  C6, as the code has it. An effect that ends with a running preview has scheduled a
  closure whose start time is the time it read. A frame at \<open>time\<close> sets the elapsed-time
  uniform, when the program has a location for it, to \<open>(time - start) * 0.001\<close>: the
  difference of the two millisecond clocks, in seconds; with no location it sets none. The
  closure it reschedules is the same one, so the start stays fixed between frames. When a
  running or failed preview is rendered with new props and runs again, the only pending
  callback is a fresh closure whose start is the new time: its frames measure from there,
  and a frame at that very time sets the uniform to 0.
\<close>

theorem frame_clock:
  "(is_live (fst (effect d fragmentCode isActive now w)) \<longrightarrow>
      (\<exists>started. pending_frames (snd (effect d fragmentCode isActive now w)) =
           pending_frames w @ [(requestRef (snd (effect d fragmentCode isActive now w)), started)] \<and>
         cl_startTime started = now)) \<and>
   (cl_timeLocation cl = Some timeLocation \<longrightarrow>
      calls (render cl time w) =
        calls w @ [UseProgram (cl_program cl), BindVertexArray (cl_vao cl),
                   Uniform1f timeLocation ((time - cl_startTime cl) * 0.001)] @
          (case cl_resolutionLocation cl of
             None \<Rightarrow> []
           | Some resolutionLocation \<Rightarrow>
               [Uniform2f resolutionLocation (real (canvas_width w)) (real (canvas_height w))]) @
          [DrawArrays TRIANGLES 0 6]) \<and>
   (cl_timeLocation cl = None \<longrightarrow>
      calls (render cl time w) =
        calls w @ [UseProgram (cl_program cl), BindVertexArray (cl_vao cl)] @
          (case cl_resolutionLocation cl of
             None \<Rightarrow> []
           | Some resolutionLocation \<Rightarrow>
               [Uniform2f resolutionLocation (real (canvas_width w)) (real (canvas_height w))]) @
          [DrawArrays TRIANGLES 0 6]) \<and>
   pending_frames (render cl time w) = pending_frames w @ [(requestRef (render cl time w), cl)] \<and>
   (frames_ok m \<and> p \<noteq> props m \<and> is_live (cleanup_fn (rerender d now p m)) \<longrightarrow>
      (\<exists>fresh. pending_frames (page_state (rerender d now p m)) =
           [(requestRef (page_state (rerender d now p m)), fresh)] \<and>
         cl_startTime fresh = now \<and>
         page_state (frame time (rerender d now p m)) =
           render fresh time ((page_state (rerender d now p m))\<lparr>pending_frames := []\<rparr>) \<and>
         (cl_timeLocation fresh = Some timeLocation \<longrightarrow>
            Uniform1f timeLocation ((time - now) * 0.001)
              \<in> set (calls (page_state (frame time (rerender d now p m)))) \<and>
            Uniform1f timeLocation 0
              \<in> set (calls (page_state (frame now (rerender d now p m)))))))"
proof (intro conjI impI)
  assume "is_live (fst (effect d fragmentCode isActive now w))"
  then show "\<exists>started. pending_frames (snd (effect d fragmentCode isActive now w)) =
           pending_frames w @ [(requestRef (snd (effect d fragmentCode isActive now w)), started)] \<and>
         cl_startTime started = now"
    using effect_schedules [of d fragmentCode isActive now w] by blast
next
  assume "cl_timeLocation cl = Some timeLocation"
  then show "calls (render cl time w) =
        calls w @ [UseProgram (cl_program cl), BindVertexArray (cl_vao cl),
                   Uniform1f timeLocation ((time - cl_startTime cl) * 0.001)] @
          (case cl_resolutionLocation cl of
             None \<Rightarrow> []
           | Some resolutionLocation \<Rightarrow>
               [Uniform2f resolutionLocation (real (canvas_width w)) (real (canvas_height w))]) @
          [DrawArrays TRIANGLES 0 6]"
    by (simp add: render_fields)
next
  assume "cl_timeLocation cl = None"
  then show "calls (render cl time w) =
        calls w @ [UseProgram (cl_program cl), BindVertexArray (cl_vao cl)] @
          (case cl_resolutionLocation cl of
             None \<Rightarrow> []
           | Some resolutionLocation \<Rightarrow>
               [Uniform2f resolutionLocation (real (canvas_width w)) (real (canvas_height w))]) @
          [DrawArrays TRIANGLES 0 6]"
    by (simp add: render_fields)
next
  show "pending_frames (render cl time w) = pending_frames w @ [(requestRef (render cl time w), cl)]"
    by (simp add: render_fields)
next
  assume a: "frames_ok m \<and> p \<noteq> props m \<and> is_live (cleanup_fn (rerender d now p m))"
  let ?w = "run_cleanup (cleanup_fn m) (page_state m)"
  let ?m = "rerender d now p m"
  have r: "?m = mount d now p ?w"
    using a by (simp add: rerender_def)
  have c: "pending_frames ?w = []"
    using a by (simp add: run_cleanup_frames)
  have fs: "cleanup_fn ?m = fst (effect d (fst p) (snd p) now ?w)"
    and sn: "page_state ?m = snd (effect d (fst p) (snd p) now ?w)"
    by (simp_all add: r mount_def split: prod.splits)
  have "is_live (fst (effect d (fst p) (snd p) now ?w))"
    using a fs by simp
  then obtain fresh where
    f: "pending_frames (page_state ?m) = [(requestRef (page_state ?m), fresh)]"
      "cl_startTime fresh = now"
    using effect_schedules [of d "fst p" "snd p" now ?w] c sn by auto
  have g: "\<And>t. page_state (frame t ?m) =
             render fresh t ((page_state ?m)\<lparr>pending_frames := []\<rparr>)"
    by (simp add: frame_def animation_frame_single [OF f(1)])
  have u: "cl_timeLocation fresh = Some timeLocation \<longrightarrow>
            Uniform1f timeLocation ((time - now) * 0.001)
              \<in> set (calls (page_state (frame time ?m))) \<and>
            Uniform1f timeLocation 0 \<in> set (calls (page_state (frame now ?m)))"
    by (simp add: g render_fields f(2))
  show "\<exists>fresh. pending_frames (page_state ?m) = [(requestRef (page_state ?m), fresh)] \<and>
         cl_startTime fresh = now \<and>
         page_state (frame time ?m) =
           render fresh time ((page_state ?m)\<lparr>pending_frames := []\<rparr>) \<and>
         (cl_timeLocation fresh = Some timeLocation \<longrightarrow>
            Uniform1f timeLocation ((time - now) * 0.001)
              \<in> set (calls (page_state (frame time ?m))) \<and>
            Uniform1f timeLocation 0 \<in> set (calls (page_state (frame now ?m))))"
    using f g u by blast
qed

theorem frame_clock_witness:
  "is_live (fst (effect good_driver scenario_source True 0 world0)) \<and>
   (\<exists>started. pending_frames (snd (effect good_driver scenario_source True 0 world0)) =
       [(requestRef (snd (effect good_driver scenario_source True 0 world0)), started)] \<and>
      cl_startTime started = 0) \<and>
   frames_ok live_preview \<and> (second_source, True) \<noteq> props live_preview \<and>
   is_live (cleanup_fn (rerender good_driver 5000 (second_source, True) live_preview)) \<and>
   (\<exists>fresh. pending_frames (page_state (rerender good_driver 5000 (second_source, True) live_preview)) =
       [(requestRef (page_state (rerender good_driver 5000 (second_source, True) live_preview)), fresh)] \<and>
      cl_startTime fresh = 5000) \<and>
   Uniform1f 0 0 \<in> set (calls (page_state
     (frame 5000 (rerender good_driver 5000 (second_source, True) live_preview)))) \<and>
   Uniform1f 0 1 \<in> set (calls (page_state
     (frame 6000 (rerender good_driver 5000 (second_source, True) live_preview))))"
proof -
  note t = frame_clock [of good_driver scenario_source True 0 world0
      "\<lparr>cl_program = 2, cl_vao = Some 4, cl_timeLocation = Some 0,
        cl_resolutionLocation = Some 1, cl_startTime = 0\<rparr>" 0 6000 live_preview
      "(second_source, True)"]
  note t' = frame_clock [of good_driver scenario_source True 5000 world0
      "\<lparr>cl_program = 2, cl_vao = Some 4, cl_timeLocation = Some 0,
        cl_resolutionLocation = Some 1, cl_startTime = 0\<rparr>" 0 6000 live_preview
      "(second_source, True)"]
  have l: "is_live (fst (effect good_driver scenario_source True 0 world0))"
    by (rule good_live(1)) (rule world0_fields)
  have 1: "\<exists>started. pending_frames (snd (effect good_driver scenario_source True 0 world0)) =
       [(requestRef (snd (effect good_driver scenario_source True 0 world0)), started)] \<and>
      cl_startTime started = 0"
    using t l by (simp add: world0_fields)
  have 2: "\<exists>fresh. pending_frames (page_state (rerender good_driver 5000 (second_source, True) live_preview)) =
       [(requestRef (page_state (rerender good_driver 5000 (second_source, True) live_preview)), fresh)] \<and>
      cl_startTime fresh = 5000 \<and>
      (cl_timeLocation fresh = Some 0 \<longrightarrow>
         Uniform1f 0 ((6000 - 5000) * 0.001)
           \<in> set (calls (page_state (frame 6000 (rerender good_driver 5000 (second_source, True) live_preview)))) \<and>
         Uniform1f 0 0
           \<in> set (calls (page_state (frame 5000 (rerender good_driver 5000 (second_source, True) live_preview)))))"
    using t' live_preview_facts(1) recompiled_facts(1,2) by blast
  then obtain fresh where
    f: "pending_frames (page_state (rerender good_driver 5000 (second_source, True) live_preview)) =
       [(requestRef (page_state (rerender good_driver 5000 (second_source, True) live_preview)), fresh)]"
      "cl_startTime fresh = 5000"
      "cl_timeLocation fresh = Some 0 \<longrightarrow>
         Uniform1f 0 ((6000 - 5000) * 0.001)
           \<in> set (calls (page_state (frame 6000 (rerender good_driver 5000 (second_source, True) live_preview)))) \<and>
         Uniform1f 0 0
           \<in> set (calls (page_state (frame 5000 (rerender good_driver 5000 (second_source, True) live_preview))))"
    by blast
  have "cl_timeLocation fresh = Some 0"
    using recompiled_facts(3) f(1) by simp
  then have 3: "Uniform1f 0 0 \<in> set (calls (page_state
       (frame 5000 (rerender good_driver 5000 (second_source, True) live_preview))))"
    and 4: "Uniform1f 0 1 \<in> set (calls (page_state
       (frame 6000 (rerender good_driver 5000 (second_source, True) live_preview))))"
    using f(3) by simp_all
  show ?thesis
    using l 1 live_preview_facts(1) recompiled_facts(1,2) f(1,2) 3 4 by blast
qed

text \<open>
  C6 as stated fails on the value: with the start at 0, the frame at time 1000 sets the
  elapsed-time uniform to 1, not to 1000.
\<close>

theorem elapsed_time_counterexample:
  "is_live (fst (effect good_driver scenario_source True 0 world0)) \<and>
   calls (animation_frame 1000 (snd (effect good_driver scenario_source True 0 world0))) =
     calls (snd (effect good_driver scenario_source True 0 world0)) @
       [UseProgram 2, BindVertexArray (Some 4), Uniform1f 0 1, Uniform2f 1 600 300,
        DrawArrays TRIANGLES 0 6] \<and>
   (1000 - 0 :: real) \<noteq> 1"
proof -
  note e = good_live [of world0 scenario_source 0, OF world0_fields(6)]
  have p: "pending_frames (snd (effect good_driver scenario_source True 0 world0)) =
             [(1, \<lparr>cl_program = 2, cl_vao = Some 4, cl_timeLocation = Some 0,
                   cl_resolutionLocation = Some 1, cl_startTime = 0\<rparr>)]"
    by (simp add: e(2) world0_fields eval_nat_numeral)
  show ?thesis
    by (simp add: e(1) animation_frame_single [OF p] render_fields e(3) e(4) world0_canvas)
qed

end
